theory Spec2Isabelle
  imports Complex_Main
begin

section \<open>Data model (Model.hpp)\<close>

text \<open>
  The C++ type \<^verbatim>\<open>double\<close> is idealised as \<^typ>\<open>real\<close>. A floating-point division by
  zero, after which the IEEE value is infinite or NaN, has no counterpart among the reals
  and is an outcome of its own (\<open>DivisionByZero\<close> below). Rounding is not modelled.
\<close>

datatype ModelType = Unknown | Dgrf | Igrf | Sv | Interpolated | Extrapolated

text \<open>
  Modelled from the spec: \<^verbatim>\<open>DateTime.hpp\<close> is not among the sources. The spec assumes a
  calendar type that exposes a fractional year and an ordering; the code also calls
  \<^verbatim>\<open>year()\<close>, the calendar year as an integer. A \<open>DateTime\<close> is its fractional year, its
  calendar year is the integer part, and the ordering is that of the fractional years.
\<close>

datatype DateTime = DateTime (fractionalYears: real)

definition year :: "DateTime \<Rightarrow> int" where
  "year dt = \<lfloor>fractionalYears dt\<rfloor>"

definition less_DateTime :: "DateTime \<Rightarrow> DateTime \<Rightarrow> bool" where
  "less_DateTime a b = (fractionalYears a < fractionalYears b)"

definition max_degree :: nat where
  "max_degree = 13"

definition max_order :: nat where
  "max_order = 13"

definition max_coefficient_size :: nat where
  "max_coefficient_size = max_degree * (max_degree + 2) + 1"

text \<open>
  \<^verbatim>\<open>std::array<double, max_coefficient_size>\<close> is a list; every \<open>Model\<close> the program can
  hold has exactly \<open>max_coefficient_size\<close> coefficients (\<open>wf_Model\<close>).
\<close>

record Model =
  epoch :: DateTime
  type :: ModelType
  coefficients :: "real list"

definition wf_Model :: "Model \<Rightarrow> bool" where
  "wf_Model mdl = (length (coefficients mdl) = max_coefficient_size)"

text \<open>The default constructor \<^verbatim>\<open>Model()\<close>; \<open>d0\<close> is the default-constructed \<^verbatim>\<open>DateTime()\<close>.\<close>

definition Model_default :: "DateTime \<Rightarrow> Model" where
  "Model_default d0 = \<lparr>epoch = d0, type = Unknown, coefficients = replicate max_coefficient_size 0\<rparr>"

section \<open>Outcomes of an operation\<close>

text \<open>
  The two \<^verbatim>\<open>std::runtime_error\<close>s of \<^verbatim>\<open>ModelSet::select\<close> and the one of
  \<^verbatim>\<open>Igrf::calculateMagDensity\<close>, under the names the specification gives them.
\<close>

datatype error = EmptyTable | NoBracketFound | InvalidCoordinateKind

text \<open>
  An operation returns, throws, runs into undefined behaviour (a read outside a
  container), or divides a \<^verbatim>\<open>double\<close> by zero.
\<close>

datatype 'a outcome = Returns 'a | Throws error | Undefined | DivisionByZero

section \<open>Model selection (ModelSet::select)\<close>

text \<open>
  \<^verbatim>\<open>std::lower_bound\<close> with the comparison \<^verbatim>\<open>m.epoch < dt\<close>: on a table sorted by epoch
  (its precondition) the index of the first snapshot whose epoch is not before \<open>dt\<close>,
  or the size of the table when there is none.
\<close>

definition lower_bound :: "Model list \<Rightarrow> DateTime \<Rightarrow> nat" where
  "lower_bound m_models dt = length (takeWhile (\<lambda>mdl. less_DateTime (epoch mdl) dt) m_models)"

text \<open>
  The result is the pair \<open>(last, next)\<close>. When the iterator is \<^verbatim>\<open>begin()\<close> the code
  evaluates \<^verbatim>\<open>*(it - 1)\<close>, a read before the first element of the vector.
\<close>

definition select :: "Model list \<Rightarrow> DateTime \<Rightarrow> (Model \<times> Model) outcome" where
  "select m_models dt =
     (if m_models = [] then Throws EmptyTable
      else
        let it = lower_bound m_models dt in
        if it = length m_models then Throws NoBracketFound
        else if it = 0 then Undefined
        else Returns (m_models ! (it - 1), m_models ! it))"

section \<open>Blending the bracketing snapshots (Igrf.hpp)\<close>

text \<open>
  \<^verbatim>\<open>std::transform\<close> over \<open>last\<close> and \<open>next\<close> writes every slot of
  \<^verbatim>\<open>model.coefficients\<close>, all three arrays having the same fixed size. The snapshots'
  epochs enter through \<^verbatim>\<open>epoch.year()\<close>, the integer calendar year; the divisor is the
  difference of two such years converted to \<^verbatim>\<open>double\<close>.
\<close>

definition interpolateModel :: "DateTime \<Rightarrow> Model \<Rightarrow> Model \<Rightarrow> Model \<Rightarrow> Model outcome" where
  "interpolateModel dt last_m next_m model =
     (if year (epoch next_m) - year (epoch last_m) = 0 then DivisionByZero
      else
        let diff = (fractionalYears dt - of_int (year (epoch last_m)))
                     / of_int (year (epoch next_m) - year (epoch last_m))
        in Returns (model\<lparr>coefficients :=
             map2 (\<lambda>a b. a + diff * (b - a)) (coefficients last_m) (coefficients next_m)\<rparr>))"

definition extrapolateModel :: "DateTime \<Rightarrow> Model \<Rightarrow> Model \<Rightarrow> Model \<Rightarrow> Model outcome" where
  "extrapolateModel dt last_m next_m model =
     (let diff = fractionalYears dt - of_int (year (epoch last_m))
      in Returns (model\<lparr>coefficients :=
           map2 (\<lambda>a b. a + diff * b) (coefficients last_m) (coefficients next_m)\<rparr>))"

text \<open>
  The second half of \<^verbatim>\<open>Igrf::initializeModel\<close>: interpolate or extrapolate into the
  working model, then stamp its epoch and type.
\<close>

definition blend :: "DateTime \<Rightarrow> Model \<Rightarrow> Model \<Rightarrow> Model \<Rightarrow> Model outcome" where
  "blend dt last_m next_m model =
     (if type next_m \<noteq> Sv then
        (case interpolateModel dt last_m next_m model of
           Returns mdl \<Rightarrow> Returns (mdl\<lparr>epoch := dt, type := Interpolated\<rparr>)
         | Throws e \<Rightarrow> Throws e
         | Undefined \<Rightarrow> Undefined
         | DivisionByZero \<Rightarrow> DivisionByZero)
      else
        (case extrapolateModel dt last_m next_m model of
           Returns mdl \<Rightarrow> Returns (mdl\<lparr>epoch := dt, type := Extrapolated\<rparr>)
         | Throws e \<Rightarrow> Throws e
         | Undefined \<Rightarrow> Undefined
         | DivisionByZero \<Rightarrow> DivisionByZero))"

text \<open>
  The engine: the working model \<^verbatim>\<open>m_model\<close>, overwritten by every query, and the
  coefficient table \<^verbatim>\<open>m_model_set\<close>.
\<close>

record Igrf_engine =
  m_model :: Model
  m_model_set :: "Model list"

text \<open>The constructor \<^verbatim>\<open>Igrf(const ModelSet&)\<close>.\<close>

definition Igrf_new :: "DateTime \<Rightarrow> Model list \<Rightarrow> Igrf_engine" where
  "Igrf_new d0 model_set = \<lparr>m_model = Model_default d0, m_model_set = model_set\<rparr>"

text \<open>
  After \<open>Undefined\<close> and \<open>DivisionByZero\<close> the engine returned is the one passed in: the
  model says nothing about the state the program is then in.
\<close>

definition initializeModel :: "Igrf_engine \<Rightarrow> DateTime \<Rightarrow> unit outcome \<times> Igrf_engine" where
  "initializeModel s dt =
     (case select (m_model_set s) dt of
        Throws e \<Rightarrow> (Throws e, s)
      | Undefined \<Rightarrow> (Undefined, s)
      | DivisionByZero \<Rightarrow> (DivisionByZero, s)
      | Returns (last_m, next_m) \<Rightarrow>
          (case blend dt last_m next_m (m_model s) of
             Returns mdl \<Rightarrow> (Returns (), s\<lparr>m_model := mdl\<rparr>)
           | Throws e \<Rightarrow> (Throws e, s)
           | Undefined \<Rightarrow> (Undefined, s)
           | DivisionByZero \<Rightarrow> (DivisionByZero, s)))"

text \<open>
  The blending fraction and time offset as the specification words them, from the
  snapshots' epochs themselves.
\<close>

definition spec_fraction :: "DateTime \<Rightarrow> Model \<Rightarrow> Model \<Rightarrow> real" where
  "spec_fraction dt lower upper =
     (fractionalYears dt - fractionalYears (epoch lower))
       / (fractionalYears (epoch upper) - fractionalYears (epoch lower))"

definition spec_offset :: "DateTime \<Rightarrow> Model \<Rightarrow> real" where
  "spec_offset dt lower = fractionalYears dt - fractionalYears (epoch lower)"

text \<open>The same two quantities as the code computes them, from the calendar years.\<close>

definition year_fraction :: "DateTime \<Rightarrow> Model \<Rightarrow> Model \<Rightarrow> real" where
  "year_fraction dt lower upper =
     (fractionalYears dt - of_int (year (epoch lower)))
       / of_int (year (epoch upper) - year (epoch lower))"

definition year_offset :: "DateTime \<Rightarrow> Model \<Rightarrow> real" where
  "year_offset dt lower = fractionalYears dt - of_int (year (epoch lower))"

text \<open>A snapshot whose epoch is the first instant of its calendar year.\<close>

definition on_year_start :: "Model \<Rightarrow> bool" where
  "on_year_start mdl = (fractionalYears (epoch mdl) = of_int (year (epoch mdl)))"

section \<open>Positions and vectors\<close>

text \<open>
  Modelled from the spec: \<^verbatim>\<open>Coordinate.hpp\<close> and \<^verbatim>\<open>Essential.hpp\<close> are not among the
  sources. A position carries its epoch, a coordinate-kind tag and three scalars
  (altitude or radius, longitude, latitude; the angles in radians). The code tests the
  tag for \<open>GeocentricSpherical\<close> and \<open>Wgs84\<close> and rejects every other one. The semi-axes
  \<^verbatim>\<open>constant::wgs84_a\<close> and \<^verbatim>\<open>constant::wgs84_b\<close> of the reference ellipsoid are
  parameters \<open>wgs84_a\<close> and \<open>wgs84_b\<close> of the functions that use them.
\<close>

datatype CoordinateType = GeocentricSpherical | Wgs84 | OtherCoordinate

record CoordinateBase =
  pos_epoch :: DateTime
  pos_type :: CoordinateType
  altitude :: real
  longitude :: real
  latitude :: real

type_synonym Vector3d = "real \<times> real \<times> real"

definition scale :: "real \<Rightarrow> Vector3d \<Rightarrow> Vector3d" where
  "scale k v = (case v of (x, y, z) \<Rightarrow> (x * k, y * k, z * k))"

definition then_do :: "'a outcome \<Rightarrow> ('a \<Rightarrow> 'b outcome) \<Rightarrow> 'b outcome" where
  "then_do x f =
     (case x of
        Returns v \<Rightarrow> f v
      | Throws e \<Rightarrow> Throws e
      | Undefined \<Rightarrow> Undefined
      | DivisionByZero \<Rightarrow> DivisionByZero)"

definition map_outcome :: "('a \<Rightarrow> 'b) \<Rightarrow> 'a outcome \<Rightarrow> 'b outcome" where
  "map_outcome f x = then_do x (\<lambda>v. Returns (f v))"

section \<open>Field synthesis (Igrf::calculateMagDensity)\<close>

definition earth_radius :: real where
  "earth_radius = 6371200"

definition p_size :: nat where
  "p_size = (max_degree + 1) * (max_degree + 2) div 2"

text \<open>
  Lines 157 to 186: radius, cosine and sine of the geocentric colatitude, cosine and sine
  of the rotation angle, in this order. Every division is preceded by the test of its
  divisor, in the order in which the code divides.

  Where the idealisation ends: over the reals the cosine of \<open>\<plusminus>\<pi>/2\<close> is 0, whereas
  \<^verbatim>\<open>std::cos\<close> returns 0.0 for no \<^verbatim>\<open>double\<close>. At a pole the program therefore has a
  small non-zero \<open>sin_theta\<close> and takes the dividing branch of line 248, and this model
  takes the branch of line 246. Nothing below is stated at a pole.
\<close>

definition normalize ::
  "real \<Rightarrow> real \<Rightarrow> CoordinateBase \<Rightarrow> (real \<times> real \<times> real \<times> real \<times> real) outcome" where
  "normalize wgs84_a wgs84_b position =
     (let r = altitude position;
          theta = latitude position;
          cos_theta = sin theta;
          sin_theta = cos theta
      in
        if pos_type position = GeocentricSpherical then
          Returns (r, cos_theta, sin_theta, 1, 0)
        else if pos_type position = Wgs84 then
          (let a = wgs84_a;
               b = wgs84_b;
               aa = a * a;
               bb = b * b;
               h = r;
               a2sint2 = aa * sin_theta * sin_theta;
               b2cost2 = bb * cos_theta * cos_theta;
               rho2 = a2sint2 + b2cost2;
               rho = sqrt rho2
           in
             if rho2 = 0 then DivisionByZero
             else
               let r' = sqrt ((aa * a2sint2 + bb * b2cost2) / rho2 + r * r + 2 * r * rho)
               in
                 if r' = 0 then DivisionByZero
                 else if rho = 0 then DivisionByZero
                 else
                   let cos_delta = (h + rho) / r';
                       sin_delta = (aa - bb) / rho * sin_theta * cos_theta / r';
                       cos_theta_gd = cos_theta;
                       cos_theta' = cos_theta_gd * cos_delta - sin_theta * sin_delta;
                       sin_theta' = sin_theta * cos_delta + cos_theta_gd * sin_delta
                   in Returns (r', cos_theta', sin_theta', cos_delta, sin_delta))
        else Throws InvalidCoordinateKind)"

text \<open>The variables of the summation loop (lines 196 to 207).\<close>

record synth =
  s_n :: int
  s_m :: int
  s_c_idx :: int
  s_ratio :: real
  s_p :: "real list"
  s_d_p :: "real list"
  s_b_r :: real
  s_b_t :: real
  s_b_p :: real

text \<open>Lines 209 to 213: the step to the next degree.\<close>

definition next_degree :: "real \<Rightarrow> synth \<Rightarrow> synth outcome" where
  "next_degree r s =
     (if s_n s < s_m s then
        (if r = 0 then DivisionByZero
         else Returns (s\<lparr>s_n := s_n s + 1, s_m := 0, s_ratio := s_ratio s * (earth_radius / r)\<rparr>))
      else Returns s)"

text \<open>Lines 215 to 228: the Legendre function and its derivative at \<open>p_idx - 1\<close>.\<close>

definition legendre :: "real \<Rightarrow> real \<Rightarrow> nat \<Rightarrow> synth \<Rightarrow> synth outcome" where
  "legendre cos_theta sin_theta p_idx s =
     (let n = s_n s;
          m = s_m s;
          p_lag0 = int p_idx - 1
      in
        if n = m \<and> p_lag0 \<noteq> 2 then
          (let p_lag1 = int p_idx - n - 2 in
             if 2 * m = 0 then DivisionByZero
             else
               let cof = sqrt (1 - 1 / of_int (2 * m));
                   p' = (s_p s)[nat p_lag0 := cof * sin_theta * (s_p s ! nat p_lag1)];
                   d_p' = (s_d_p s)[nat p_lag0 :=
                            cof * (sin_theta * (s_d_p s ! nat p_lag1) + cos_theta * (p' ! nat p_lag1))]
               in Returns (s\<lparr>s_p := p', s_d_p := d_p'\<rparr>))
        else if p_lag0 \<noteq> 2 then
          (let p_lag1 = int p_idx - n - 1;
               p_lag2 = int p_idx - 2 * n
           in
             if sqrt (of_int (n * n - m * m)) = 0 then DivisionByZero
             else
               let cofl = of_int (2 * n - 1) / sqrt (of_int (n * n - m * m));
                   cofr = sqrt (of_int ((n - 1) * (n - 1) - m * m)) / sqrt (of_int (n * n - m * m));
                   p' = (s_p s)[nat p_lag0 :=
                          cofl * cos_theta * (s_p s ! nat p_lag1) - cofr * (s_p s ! nat p_lag2)];
                   d_p' = (s_d_p s)[nat p_lag0 :=
                            cofl * (cos_theta * (s_d_p s ! nat p_lag1) - sin_theta * (p' ! nat p_lag1))
                              - cofr * (s_d_p s ! nat p_lag2)]
               in Returns (s\<lparr>s_p := p', s_d_p := d_p'\<rparr>))
        else Returns s)"

text \<open>Lines 245 to 249: the azimuthal term of one pair \<open>(g, h)\<close>.\<close>

definition azimuthal ::
  "real \<Rightarrow> real \<Rightarrow> real \<Rightarrow> int \<Rightarrow> real \<Rightarrow> real \<Rightarrow> real \<Rightarrow> real \<Rightarrow> real \<Rightarrow> real \<Rightarrow> real" where
  "azimuthal cos_theta sin_theta ratio m gh_cof0 gh_cof1 cos_m_phi sin_m_phi p_lag0_val b_p =
     (if sin_theta = 0 then
        b_p - cos_theta * ratio * (gh_cof1 * cos_m_phi - gh_cof0 * sin_m_phi) * p_lag0_val
      else
        b_p - 1 / sin_theta * ratio * of_int m * (gh_cof1 * cos_m_phi - gh_cof0 * sin_m_phi)
                * p_lag0_val)"

text \<open>Lines 230 to 252: the contribution of the current degree and order, then \<^verbatim>\<open>m++\<close>.\<close>

definition accumulate ::
  "real \<Rightarrow> real \<Rightarrow> real list \<Rightarrow> real list \<Rightarrow> real list \<Rightarrow> nat \<Rightarrow> synth \<Rightarrow> synth" where
  "accumulate cos_theta sin_theta cos_phi sin_phi coeffs p_idx s =
     (let n = s_n s;
          m = s_m s;
          ratio = s_ratio s;
          p_lag0 = nat (int p_idx - 1);
          c_lag0 = nat (s_c_idx s - 1)
      in
        if m = 0 then
          (let gh_cof = coeffs ! c_lag0;
               cof = ratio * gh_cof
           in s\<lparr>s_b_r := s_b_r s + of_int (n + 1) * cof * (s_p s ! p_lag0),
                 s_b_t := s_b_t s - cof * (s_d_p s ! p_lag0),
                 s_c_idx := s_c_idx s + 1,
                 s_m := m + 1\<rparr>)
        else
          (let m_lag0 = nat (m - 1);
               gh_cof0 = coeffs ! c_lag0;
               gh_cof1 = coeffs ! (c_lag0 + 1);
               cof = ratio * (gh_cof0 * (cos_phi ! m_lag0) + gh_cof1 * (sin_phi ! m_lag0))
           in s\<lparr>s_b_r := s_b_r s + of_int (n + 1) * cof * (s_p s ! p_lag0),
                 s_b_t := s_b_t s - cof * (s_d_p s ! p_lag0),
                 s_b_p := azimuthal cos_theta sin_theta ratio m gh_cof0 gh_cof1
                            (cos_phi ! m_lag0) (sin_phi ! m_lag0) (s_p s ! p_lag0) (s_b_p s),
                 s_c_idx := s_c_idx s + 2,
                 s_m := m + 1\<rparr>))"

text \<open>One pass through the body of the loop (lines 208 to 253).\<close>

definition body ::
  "real \<Rightarrow> real \<Rightarrow> real \<Rightarrow> real list \<Rightarrow> real list \<Rightarrow> real list \<Rightarrow> nat \<Rightarrow> synth \<Rightarrow> synth outcome" where
  "body r cos_theta sin_theta cos_phi sin_phi coeffs p_idx s =
     then_do (next_degree r s) (\<lambda>s1.
     then_do (legendre cos_theta sin_theta p_idx s1) (\<lambda>s2.
     Returns (accumulate cos_theta sin_theta cos_phi sin_phi coeffs p_idx s2)))"

text \<open>The loop \<^verbatim>\<open>for (p_idx = 2; p_idx <= p_size; p_idx++)\<close>.\<close>

function calc_loop ::
  "real \<Rightarrow> real \<Rightarrow> real \<Rightarrow> real list \<Rightarrow> real list \<Rightarrow> real list \<Rightarrow> nat \<Rightarrow> synth \<Rightarrow> synth outcome" where
  "calc_loop r cos_theta sin_theta cos_phi sin_phi coeffs p_idx s =
     (if p_idx \<le> p_size then
        (case body r cos_theta sin_theta cos_phi sin_phi coeffs p_idx s of
           Returns s' \<Rightarrow> calc_loop r cos_theta sin_theta cos_phi sin_phi coeffs (p_idx + 1) s'
         | Throws e \<Rightarrow> Throws e
         | Undefined \<Rightarrow> Undefined
         | DivisionByZero \<Rightarrow> DivisionByZero)
      else Returns s)"
  by pat_completeness auto
termination
  by (relation "measure (\<lambda>(r, cos_theta, sin_theta, cos_phi, sin_phi, coeffs, p_idx, s).
        p_size + 1 - p_idx)") auto

declare calc_loop.simps [simp del]

text \<open>The state in which the loop is entered (lines 196 to 207).\<close>

definition loop_entry :: "real \<Rightarrow> real \<Rightarrow> real \<Rightarrow> synth" where
  "loop_entry ratio cos_theta sin_theta =
     \<lparr>s_n = 0, s_m = 1, s_c_idx = 1, s_ratio = ratio,
      s_p = (replicate p_size 0)[0 := 1, 2 := sin_theta],
      s_d_p = (replicate p_size 0)[0 := 0, 2 := cos_theta],
      s_b_r = 0, s_b_t = 0, s_b_p = 0\<rparr>"

text \<open>Line 254: the rotation into the north, east, down frame.\<close>

definition rotate :: "real \<Rightarrow> real \<Rightarrow> synth \<Rightarrow> Vector3d" where
  "rotate cos_delta sin_delta s =
     (- s_b_t s * cos_delta - s_b_r s * sin_delta,
      s_b_p s,
      s_b_t s * sin_delta - s_b_r s * cos_delta)"

text \<open>
  \<^verbatim>\<open>calculateMagDensity\<close>, in nanotesla; \<open>model\<close> is the working model \<^verbatim>\<open>m_model\<close>.
\<close>

definition calculateMagDensity ::
  "real \<Rightarrow> real \<Rightarrow> Model \<Rightarrow> CoordinateBase \<Rightarrow> Vector3d outcome" where
  "calculateMagDensity wgs84_a wgs84_b model position =
     then_do (normalize wgs84_a wgs84_b position)
       (\<lambda>(r, cos_theta, sin_theta, cos_delta, sin_delta).
          let phi = longitude position;
              cos_phi = map (\<lambda>m. cos (real m * phi)) [1..<max_degree + 1];
              sin_phi = map (\<lambda>m. sin (real m * phi)) [1..<max_degree + 1]
          in
            if r = 0 then DivisionByZero
            else
              let ratio = (earth_radius / r) * (earth_radius / r) in
                map_outcome (rotate cos_delta sin_delta)
                  (calc_loop r cos_theta sin_theta cos_phi sin_phi (coefficients model) 2
                     (loop_entry ratio cos_theta sin_theta)))"

text \<open>
  What holds of the counters whenever the loop is about to run its body for \<open>p_idx\<close>:
  \<open>m\<close> has been incremented past the order handled last, \<open>p_idx - 1\<close> is the triangular
  index of \<open>(n, m)\<close>, and \<open>c_idx\<close> is the one-based position of \<open>g(n, m)\<close> in the packing.
\<close>

definition loop_inv :: "nat \<Rightarrow> synth \<Rightarrow> bool" where
  "loop_inv p_idx s =
     (0 \<le> s_n s \<and> 1 \<le> s_m s \<and> s_m s \<le> s_n s + 1 \<and>
      s_c_idx s = s_n s * s_n s + 2 * s_m s - 1 \<and>
      2 * (int p_idx - s_m s - 1) = s_n s * (s_n s + 1))"

text \<open>
  What holds of them after the step to the next degree, when \<open>(n, m)\<close> are the degree and
  order the pass handles.
\<close>

definition pass_inv :: "nat \<Rightarrow> synth \<Rightarrow> bool" where
  "pass_inv p_idx s =
     (1 \<le> s_n s \<and> 0 \<le> s_m s \<and> s_m s \<le> s_n s \<and>
      s_c_idx s = s_n s * s_n s + (if s_m s = 0 then 0 else 2 * s_m s - 1) \<and>
      2 * (int p_idx - 1 - s_m s) = s_n s * (s_n s + 1))"

section \<open>The packing of the coefficients\<close>

text \<open>
  The canonical column order of the IGRF coefficient files: for each degree
  \<open>n = 1, \<dots>, max_degree\<close> and each order \<open>m = 0, \<dots>, n\<close>, the coefficient \<open>g(n, m)\<close>
  and, when \<open>m \<ge> 1\<close>, the coefficient \<open>h(n, m)\<close>.
\<close>

datatype gauss = G | H

definition canonical_slots :: "(int \<times> int \<times> gauss) list" where
  "canonical_slots =
     concat (map (\<lambda>n. concat (map (\<lambda>m. if m = 0 then [(n, m, G)] else [(n, m, G), (n, m, H)]) [0..n]))
       [1..int max_degree])"

text \<open>
  The counters \<open>(n, m, c_idx)\<close> of the loop taken by themselves: how one pass changes them
  (lines 209 to 213, 236, 250 and 252), and which slots of \<^verbatim>\<open>m_model.coefficients\<close> the
  pass reads for which coefficient (lines 231 to 232 and 239 to 242, where \<open>gh_cof0\<close>
  multiplies the cosine and \<open>gh_cof1\<close> the sine).
\<close>

definition count_step :: "int \<times> int \<times> int \<Rightarrow> int \<times> int \<times> int" where
  "count_step c =
     (case c of (n, m, c_idx) \<Rightarrow>
        let n1 = (if n < m then n + 1 else n);
            m1 = (if n < m then 0 else m)
        in (n1, m1 + 1, if m1 = 0 then c_idx + 1 else c_idx + 2))"

definition pass_slots :: "int \<times> int \<times> int \<Rightarrow> (nat \<times> int \<times> int \<times> gauss) list" where
  "pass_slots c =
     (case c of (n, m, c_idx) \<Rightarrow>
        let n1 = (if n < m then n + 1 else n);
            m1 = (if n < m then 0 else m);
            c_lag0 = nat (c_idx - 1)
        in if m1 = 0 then [(c_lag0, n1, m1, G)]
           else [(c_lag0, n1, m1, G), (c_lag0 + 1, n1, m1, H)])"

fun loop_slots :: "nat \<Rightarrow> int \<times> int \<times> int \<Rightarrow> (nat \<times> int \<times> int \<times> gauss) list" where
  "loop_slots 0 c = []"
| "loop_slots (Suc k) c = pass_slots c @ loop_slots k (count_step c)"

section \<open>Queries (Igrf::operator())\<close>

definition nanotesla_to_tesla :: real where
  "nanotesla_to_tesla = 1 / 10 ^ 9"

text \<open>
  \<^verbatim>\<open>updatePositionAndMag\<close> for a \<open>Wgs84\<close> position. For an \<open>Ecef\<close> position the code
  hands the result of \<^verbatim>\<open>toGeocentricSpherical\<close> (not among the sources) to the synthesis;
  \<open>position\<close> is then that result, taken to carry the epoch of the position it comes from.
\<close>

definition updatePositionAndMag ::
  "real \<Rightarrow> real \<Rightarrow> Igrf_engine \<Rightarrow> CoordinateBase \<Rightarrow> Vector3d outcome \<times> Igrf_engine" where
  "updatePositionAndMag wgs84_a wgs84_b s position =
     (case initializeModel s (pos_epoch position) of
        (Returns u, s') \<Rightarrow> (calculateMagDensity wgs84_a wgs84_b (m_model s') position, s')
      | (Throws e, s') \<Rightarrow> (Throws e, s')
      | (Undefined, s') \<Rightarrow> (Undefined, s')
      | (DivisionByZero, s') \<Rightarrow> (DivisionByZero, s'))"

definition Igrf_call ::
  "real \<Rightarrow> real \<Rightarrow> Igrf_engine \<Rightarrow> CoordinateBase \<Rightarrow> Vector3d outcome \<times> Igrf_engine" where
  "Igrf_call wgs84_a wgs84_b s position =
     (case updatePositionAndMag wgs84_a wgs84_b s position of
        (mag_density, s') \<Rightarrow> (map_outcome (scale nanotesla_to_tesla) mag_density, s'))"

section \<open>Reading a coefficient stream (ModelSet::read)\<close>

datatype ModelFileRowType =
  Unknown_row | Comment_row | ModelType_row | Epoch_row | GCoeffecient_row | HCoeffecient_row

text \<open>\<^verbatim>\<open>line.find(header) != std::string::npos\<close>: the header occurs somewhere in the line.\<close>

fun starts_with :: "string \<Rightarrow> string \<Rightarrow> bool" where
  "starts_with [] line = True"
| "starts_with (h # hs) [] = False"
| "starts_with (h # hs) (c # cs) = (h = c \<and> starts_with hs cs)"

fun contains :: "string \<Rightarrow> string \<Rightarrow> bool" where
  "contains [] header = starts_with header []"
| "contains (c # cs) header = (starts_with header (c # cs) \<or> contains cs header)"

definition getModelFileRowType :: "string \<Rightarrow> ModelFileRowType" where
  "getModelFileRowType line =
     (if line = [] then Unknown_row
      else if contains line ''#'' then Comment_row
      else if contains line ''c/s'' then ModelType_row
      else if contains line ''g/h'' then Epoch_row
      else if contains line ''g'' then GCoeffecient_row
      else if contains line ''h'' then HCoeffecient_row
      else Unknown_row)"

definition getModelType :: "string \<Rightarrow> ModelType" where
  "getModelType elem =
     (if elem = ''DGRF'' then Dgrf
      else if elem = ''IGRF'' then Igrf
      else if elem = ''SV'' then Sv
      else Unknown)"

text \<open>
  \<^verbatim>\<open>std::istream_iterator<std::string>\<close> over the line: the maximal runs of characters
  that are not white space.
\<close>

definition is_space :: "char \<Rightarrow> bool" where
  "is_space c = (c = CHR '' '' \<or> c = CHR 0x09 \<or> c = CHR 0x0A \<or> c = CHR 0x0B \<or> c = CHR 0x0C
                  \<or> c = CHR 0x0D)"

fun split_ws :: "string \<Rightarrow> string \<Rightarrow> string list" where
  "split_ws cur [] = (if cur = [] then [] else [cur])"
| "split_ws cur (c # cs) =
     (if is_space c then (if cur = [] then split_ws [] cs else cur # split_ws [] cs)
      else split_ws (cur @ [c]) cs)"

definition tokens :: "string \<Rightarrow> string list" where
  "tokens line = split_ws [] line"

text \<open>The row of model types (lines 177 to 190): one new default model per known type.\<close>

definition model_row :: "DateTime \<Rightarrow> Model list \<Rightarrow> string list \<Rightarrow> Model list" where
  "model_row d0 m_models elms =
     foldl (\<lambda>ms elm. if getModelType elm \<noteq> Unknown
                       then ms @ [(Model_default d0)\<lparr>type := getModelType elm\<rparr>] else ms)
       m_models elms"

text \<open>
  The text handed to \<^verbatim>\<open>std::stoi\<close> for an epoch token (lines 200 to 208). For a range
  \<open>yyyy-yy\<close> the part before the first dash loses as many trailing characters as the part
  after it has, and the part after it is appended; the unsigned subtraction wraps when
  the second part is the longer one, and \<^verbatim>\<open>substr\<close> then keeps the whole first part.
\<close>

definition epoch_year_text :: "string \<Rightarrow> string" where
  "epoch_year_text elm =
     (let lower_range = takeWhile (\<lambda>c. c \<noteq> CHR ''-'') elm in
        if length lower_range < length elm then
          (let upper_range = drop (length lower_range + 1) elm in
             (if length upper_range \<le> length lower_range
              then take (length lower_range - length upper_range) lower_range
              else lower_range) @ upper_range)
        else elm)"

text \<open>
  The library functions \<^verbatim>\<open>std::stoi\<close> and \<^verbatim>\<open>std::stod\<close> and the constructor
  \<^verbatim>\<open>DateTime(int, int)\<close> are parameters \<open>stoi\<close>, \<open>stod\<close> and \<open>date_of_year\<close>; \<open>None\<close> stands
  for the exception they throw. The conversion is evaluated before the element of
  \<^verbatim>\<open>m_models\<close> it is assigned to, so an exception is caught before the vector is touched;
  an index outside the vector or the coefficient array is undefined behaviour.
\<close>

fun epoch_tokens ::
  "(string \<Rightarrow> int option) \<Rightarrow> (int \<Rightarrow> DateTime option) \<Rightarrow> nat \<Rightarrow> Model list \<Rightarrow> string list
     \<Rightarrow> Model list outcome" where
  "epoch_tokens stoi date_of_year i m_models [] = Returns m_models"
| "epoch_tokens stoi date_of_year i m_models (elm # rest) =
     (if length elm \<ge> 6 then
        (case stoi (epoch_year_text elm) of
           None \<Rightarrow> epoch_tokens stoi date_of_year i m_models rest
         | Some y \<Rightarrow>
             (case date_of_year y of
                None \<Rightarrow> epoch_tokens stoi date_of_year i m_models rest
              | Some d \<Rightarrow>
                  if i < length m_models then
                    epoch_tokens stoi date_of_year (i + 1)
                      (m_models[i := (m_models ! i)\<lparr>epoch := d\<rparr>]) rest
                  else Undefined))
      else epoch_tokens stoi date_of_year i m_models rest)"

text \<open>A coefficient row (lines 220 to 236); the result is \<open>m_i\<close> and the table.\<close>

fun coeff_tokens ::
  "(string \<Rightarrow> real option) \<Rightarrow> nat \<Rightarrow> nat \<Rightarrow> nat \<Rightarrow> Model list \<Rightarrow> string list
     \<Rightarrow> (nat \<times> Model list) outcome" where
  "coeff_tokens stod c_i colum m_i m_models [] = Returns (m_i, m_models)"
| "coeff_tokens stod c_i colum m_i m_models (elm # rest) =
     (if colum \<ge> 3 then
        (case stod elm of
           None \<Rightarrow> coeff_tokens stod c_i (colum + 1) m_i m_models rest
         | Some v \<Rightarrow>
             if m_i < length m_models \<and> c_i < length (coefficients (m_models ! m_i)) then
               coeff_tokens stod c_i (colum + 1) (m_i + 1)
                 (m_models[m_i := (m_models ! m_i)
                    \<lparr>coefficients := (coefficients (m_models ! m_i))[c_i := v]\<rparr>]) rest
             else Undefined)
      else coeff_tokens stod c_i (colum + 1) m_i m_models rest)"

text \<open>The loop over the lines of the stream; \<open>c_i\<close> is the coefficient index.\<close>

fun read_lines ::
  "(string \<Rightarrow> real option) \<Rightarrow> (string \<Rightarrow> int option) \<Rightarrow> (int \<Rightarrow> DateTime option) \<Rightarrow> DateTime
     \<Rightarrow> nat \<Rightarrow> Model list \<Rightarrow> string list \<Rightarrow> Model list outcome" where
  "read_lines stod stoi date_of_year d0 c_i m_models [] = Returns m_models"
| "read_lines stod stoi date_of_year d0 c_i m_models (line # rest) =
     (case getModelFileRowType line of
        Comment_row \<Rightarrow> read_lines stod stoi date_of_year d0 c_i m_models rest
      | ModelType_row \<Rightarrow>
          read_lines stod stoi date_of_year d0 c_i (model_row d0 m_models (tokens line)) rest
      | Epoch_row \<Rightarrow>
          (case epoch_tokens stoi date_of_year 0 m_models (tokens line) of
             Returns ms \<Rightarrow> read_lines stod stoi date_of_year d0 c_i ms rest
           | Throws e \<Rightarrow> Throws e
           | Undefined \<Rightarrow> Undefined
           | DivisionByZero \<Rightarrow> DivisionByZero)
      | GCoeffecient_row \<Rightarrow>
          (case coeff_tokens stod c_i 0 0 m_models (tokens line) of
             Returns (m_i, ms) \<Rightarrow>
               read_lines stod stoi date_of_year d0 (if m_i = length ms then c_i + 1 else c_i) ms rest
           | Throws e \<Rightarrow> Throws e
           | Undefined \<Rightarrow> Undefined
           | DivisionByZero \<Rightarrow> DivisionByZero)
      | HCoeffecient_row \<Rightarrow>
          (case coeff_tokens stod c_i 0 0 m_models (tokens line) of
             Returns (m_i, ms) \<Rightarrow>
               read_lines stod stoi date_of_year d0 (if m_i = length ms then c_i + 1 else c_i) ms rest
           | Throws e \<Rightarrow> Throws e
           | Undefined \<Rightarrow> Undefined
           | DivisionByZero \<Rightarrow> DivisionByZero)
      | Unknown_row \<Rightarrow> read_lines stod stoi date_of_year d0 c_i m_models rest)"

text \<open>
  The constructor \<^verbatim>\<open>ModelSet(std::istream&)\<close>: \<^verbatim>\<open>read\<close> on an empty table; the stream
  is the list of its lines.
\<close>

definition ModelSet_read ::
  "(string \<Rightarrow> real option) \<Rightarrow> (string \<Rightarrow> int option) \<Rightarrow> (int \<Rightarrow> DateTime option) \<Rightarrow> DateTime
     \<Rightarrow> string list \<Rightarrow> Model list outcome" where
  "ModelSet_read stod stoi date_of_year d0 lines = read_lines stod stoi date_of_year d0 0 [] lines"

text \<open>
  Stand-ins for the three parameters on concrete inputs: unsigned decimal integers
  (a leading run of digits, as \<^verbatim>\<open>std::stoi\<close> converts the longest prefix it can), signed
  ones, and January of a year.
\<close>

definition is_digit :: "char \<Rightarrow> bool" where
  "is_digit c = (48 \<le> (of_char c :: nat) \<and> (of_char c :: nat) \<le> 57)"

definition digits_value :: "string \<Rightarrow> int" where
  "digits_value ds = foldl (\<lambda>acc c. 10 * acc + (int (of_char c) - 48)) 0 ds"

definition sample_stoi :: "string \<Rightarrow> int option" where
  "sample_stoi elm =
     (let ds = takeWhile is_digit elm in if ds = [] then None else Some (digits_value ds))"

definition sample_stod :: "string \<Rightarrow> real option" where
  "sample_stod elm =
     (case elm of
        [] \<Rightarrow> None
      | c # cs \<Rightarrow>
          if c = CHR ''-'' then map_option (\<lambda>y. - of_int y) (sample_stoi cs)
          else map_option of_int (sample_stoi elm))"

definition sample_date :: "int \<Rightarrow> DateTime option" where
  "sample_date y = Some (DateTime (of_int y))"

definition sample_stream :: "string list" where
  "sample_stream =
     [''# a comment'',
      ''c/s deg ord IGRF SV'',
      ''g/h n m 1900.0 1900-05'',
      ''g 1 0 -31543 n/a 15'']"

section \<open>The unit-scaling wrapper (GeoMagFlux.hpp)\<close>

datatype MagFluxUnit = NanoTesla | MicroTesla | Tesla | Gauss | Si | Cgs | Mks | Mksa

definition nanotesla_to_microtesla :: real where
  "nanotesla_to_microtesla = 1 / 10 ^ 3"

definition nanotesla_to_gauss :: real where
  "nanotesla_to_gauss = 1 / 10 ^ 5"

text \<open>
  \<^verbatim>\<open>GeoMagFlux\<close> derives from \<^verbatim>\<open>Igrf\<close>; the base object is the field \<open>igrf\<close>. Its own
  constant \<^verbatim>\<open>nanotesla_to_tesla\<close> has the value of the engine's, \<^verbatim>\<open>1.0e-9\<close>.
\<close>

record GeoMagFlux =
  igrf :: Igrf_engine
  m_unit :: MagFluxUnit
  m_unit_scale :: real
  m_unit_symbol :: string

definition setScaling :: "MagFluxUnit \<Rightarrow> GeoMagFlux \<Rightarrow> GeoMagFlux" where
  "setScaling unit g =
     (case unit of
        NanoTesla \<Rightarrow> g\<lparr>m_unit := unit, m_unit_scale := 1, m_unit_symbol := ''nT''\<rparr>
      | MicroTesla \<Rightarrow> g\<lparr>m_unit := unit, m_unit_scale := nanotesla_to_microtesla, m_unit_symbol := ''uT''\<rparr>
      | Tesla \<Rightarrow> g\<lparr>m_unit := unit, m_unit_scale := nanotesla_to_tesla, m_unit_symbol := ''T''\<rparr>
      | Gauss \<Rightarrow> g\<lparr>m_unit := unit, m_unit_scale := nanotesla_to_gauss, m_unit_symbol := ''G''\<rparr>
      | Si \<Rightarrow> g\<lparr>m_unit := unit, m_unit_scale := nanotesla_to_tesla, m_unit_symbol := ''T''\<rparr>
      | Cgs \<Rightarrow> g\<lparr>m_unit := unit, m_unit_scale := nanotesla_to_gauss, m_unit_symbol := ''G''\<rparr>
      | Mks \<Rightarrow> g\<lparr>m_unit := unit, m_unit_scale := nanotesla_to_tesla, m_unit_symbol := ''T''\<rparr>
      | Mksa \<Rightarrow> g\<lparr>m_unit := unit, m_unit_scale := nanotesla_to_tesla, m_unit_symbol := ''T''\<rparr>)"

text \<open>
  The constructor \<^verbatim>\<open>GeoMagFlux(const ModelSet&, MagFluxUnit)\<close>. The three members are
  uninitialised until \<^verbatim>\<open>setScaling\<close> assigns them, which it does for each of the eight
  units; the values they have before are of no consequence.
\<close>

definition GeoMagFlux_new :: "DateTime \<Rightarrow> Model list \<Rightarrow> MagFluxUnit \<Rightarrow> GeoMagFlux" where
  "GeoMagFlux_new d0 model_set unit =
     setScaling unit
       \<lparr>igrf = Igrf_new d0 model_set, m_unit = unit, m_unit_scale = 0, m_unit_symbol = []\<rparr>"

definition GeoMagFlux_call ::
  "real \<Rightarrow> real \<Rightarrow> GeoMagFlux \<Rightarrow> CoordinateBase \<Rightarrow> Vector3d outcome \<times> GeoMagFlux" where
  "GeoMagFlux_call wgs84_a wgs84_b g position =
     (case updatePositionAndMag wgs84_a wgs84_b (igrf g) position of
        (mag_density, s') \<Rightarrow> (map_outcome (scale (m_unit_scale g)) mag_density, g\<lparr>igrf := s'\<rparr>))"

text \<open>
  Concrete inputs used below: the WGS84 semi-axes in metres, and two points above the
  equator at longitude 0, one at a radius of 7000 km and one on the reference sphere.
  Latitude 0 and longitude 0 are angles whose sine and cosine the floating-point library
  returns exactly.
\<close>

definition wgs84_a_metres :: real where
  "wgs84_a_metres = 6378137"

definition wgs84_b_metres :: real where
  "wgs84_b_metres = 6356752.314245"

definition orbit_point :: CoordinateBase where
  "orbit_point = \<lparr>pos_epoch = DateTime 2022, pos_type = GeocentricSpherical,
     altitude = 7000000, longitude = 0, latitude = 0\<rparr>"

definition equator_point :: CoordinateBase where
  "equator_point = \<lparr>pos_epoch = DateTime 2023, pos_type = GeocentricSpherical,
     altitude = 6371200, longitude = 0, latitude = 0\<rparr>"

text \<open>Snapshots used as concrete inputs below.\<close>

definition midyear_lower :: Model where
  "midyear_lower = \<lparr>epoch = DateTime 2000.5, type = Dgrf,
     coefficients = replicate max_coefficient_size 0\<rparr>"

definition midyear_upper :: Model where
  "midyear_upper = \<lparr>epoch = DateTime 2005.5, type = Igrf,
     coefficients = replicate max_coefficient_size 10\<rparr>"

definition snapshot_2020 :: Model where
  "snapshot_2020 = \<lparr>epoch = DateTime 2020, type = Igrf,
     coefficients = replicate max_coefficient_size 7\<rparr>"

definition snapshot_2025 :: Model where
  "snapshot_2025 = \<lparr>epoch = DateTime 2025, type = Igrf,
     coefficients = replicate max_coefficient_size 9\<rparr>"

definition rates_2025 :: Model where
  "rates_2025 = \<lparr>epoch = DateTime 2025, type = Sv,
     coefficients = replicate max_coefficient_size 2\<rparr>"

definition two_snapshots :: "Model list" where
  "two_snapshots = [snapshot_2020, snapshot_2025]"

text \<open>
  A table whose two snapshots hold the axial dipole term \<open>g(1,0) = -30000\<close> nT and
  nothing else.
\<close>

definition dipole_coefficients :: "real list" where
  "dipole_coefficients = - 30000 # replicate (max_coefficient_size - 1) 0"

definition dipole_table :: "Model list" where
  "dipole_table =
     [\<lparr>epoch = DateTime 2020, type = Igrf, coefficients = dipole_coefficients\<rparr>,
      \<lparr>epoch = DateTime 2025, type = Igrf, coefficients = dipole_coefficients\<rparr>]"

text \<open>
  A table whose two snapshots hold the three terms of degree 1, \<open>g(1,0) = -30000\<close>,
  \<open>g(1,1) = -1500\<close> and \<open>h(1,1) = 5000\<close> nT, and nothing else.
\<close>

definition tilted_coefficients :: "real list" where
  "tilted_coefficients = [- 30000, - 1500, 5000] @ replicate (max_coefficient_size - 3) 0"

definition tilted_table :: "Model list" where
  "tilted_table =
     [\<lparr>epoch = DateTime 2020, type = Igrf, coefficients = tilted_coefficients\<rparr>,
      \<lparr>epoch = DateTime 2025, type = Igrf, coefficients = tilted_coefficients\<rparr>]"

section \<open>Properties of the selection\<close>

lemma select_empty: "select [] dt = Throws EmptyTable"
  by (simp add: select_def)

lemma select_past_end:
  assumes "m_models \<noteq> []" and "lower_bound m_models dt = length m_models"
  shows "select m_models dt = Throws NoBracketFound"
  using assms by (simp add: select_def)

lemma select_inner:
  assumes "0 < lower_bound m_models dt" and "lower_bound m_models dt < length m_models"
  shows "select m_models dt =
    Returns (m_models ! (lower_bound m_models dt - 1), m_models ! lower_bound m_models dt)"
  using assms by (auto simp add: select_def Let_def)

lemma lower_bound_le: "lower_bound m_models dt \<le> length m_models"
  by (simp add: lower_bound_def length_takeWhile_le)

text \<open>
  C1. The specification says that the selection fails with \<open>NoBracketFound\<close> when the
  smallest index \<open>i\<close> with \<open>table[i].epoch \<ge> epoch\<close> is 0. On the one-snapshot table
  with epoch 1900, at the query epoch 1800 and at the query epoch 1900 itself, the code
  throws nothing: it reads the element before the first one, which is undefined
  behaviour.
\<close>

theorem select_before_first_is_undefined:
  "select [\<lparr>epoch = DateTime 1900, type = Igrf, coefficients = replicate max_coefficient_size 0\<rparr>]
     (DateTime 1800) = Undefined \<and>
   select [\<lparr>epoch = DateTime 1900, type = Igrf, coefficients = replicate max_coefficient_size 0\<rparr>]
     (DateTime 1900) = Undefined"
  by (simp add: select_def lower_bound_def less_DateTime_def)

section \<open>Properties of the blending\<close>

lemma map2_left_unchanged: "length xs \<le> length ys \<Longrightarrow> map2 (\<lambda>a b. a) xs ys = xs"
  by (induction xs arbitrary: ys) (auto simp: Suc_le_length_iff)

lemma blend_interpolates:
  assumes "type next_m \<noteq> Sv" and "year (epoch next_m) \<noteq> year (epoch last_m)"
  shows "blend dt last_m next_m model =
    Returns \<lparr>epoch = dt, type = Interpolated,
      coefficients = map2 (\<lambda>a b. a + year_fraction dt last_m next_m * (b - a))
                       (coefficients last_m) (coefficients next_m)\<rparr>"
  using assms by (simp add: blend_def interpolateModel_def year_fraction_def Let_def)

lemma blend_extrapolates:
  assumes "type next_m = Sv"
  shows "blend dt last_m next_m model =
    Returns \<lparr>epoch = dt, type = Extrapolated,
      coefficients = map2 (\<lambda>a b. a + year_offset dt last_m * b)
                       (coefficients last_m) (coefficients next_m)\<rparr>"
  using assms by (simp add: blend_def extrapolateModel_def year_offset_def Let_def)

text \<open>
  C4, as stated. The specification takes the fraction and the offset from the snapshots'
  epochs, \<open>f = (epoch - lower.epoch) / (upper.epoch - lower.epoch)\<close> and
  \<open>\<Delta>t = epoch - lower.epoch\<close>. With the lower snapshot at 2000.5 and the query epoch
  2003.0, an upper snapshot at 2005.5 gives \<open>f = 1/2\<close> and a secular-variation snapshot
  gives \<open>\<Delta>t = 5/2\<close> by these formulas; the code computes
  \<open>(2003 - 2000) / (2005 - 2000) = 3/5\<close> and \<open>2003 - 2000 = 3\<close> from the calendar years,
  so the working model is not the one the specification describes.
\<close>

theorem blend_fraction_counterexample:
  "blend (DateTime 2003) midyear_lower midyear_upper (Model_default (DateTime 0)) \<noteq>
     Returns \<lparr>epoch = DateTime 2003, type = Interpolated,
       coefficients =
         map2 (\<lambda>a b. a + spec_fraction (DateTime 2003) midyear_lower midyear_upper * (b - a))
           (coefficients midyear_lower) (coefficients midyear_upper)\<rparr> \<and>
   blend (DateTime 2003) midyear_lower rates_2025 (Model_default (DateTime 0)) \<noteq>
     Returns \<lparr>epoch = DateTime 2003, type = Extrapolated,
       coefficients =
         map2 (\<lambda>a b. a + spec_offset (DateTime 2003) midyear_lower * b)
           (coefficients midyear_lower) (coefficients rates_2025)\<rparr>"
  by (simp add: blend_def interpolateModel_def extrapolateModel_def spec_fraction_def
      spec_offset_def midyear_lower_def midyear_upper_def rates_2025_def year_def
      Model_default_def max_coefficient_size_def max_degree_def)

text \<open>
  C4, amended. For every epoch and every bracketing pair: if the upper snapshot is not a
  secular-variation snapshot and the two snapshots lie in different calendar years, the
  working model has coefficients \<open>c = c_lower + f * (c_upper - c_lower)\<close> with
  \<open>f = (epoch - Y_lower) / (Y_upper - Y_lower)\<close>, where \<open>Y\<close> is the calendar year of a
  snapshot's epoch, and is tagged \<open>Interpolated\<close>; if the upper snapshot is a
  secular-variation snapshot, it has coefficients \<open>c = c_lower + \<Delta>t * c_upper\<close> with
  \<open>\<Delta>t = epoch - Y_lower\<close> and is tagged \<open>Extrapolated\<close>.
\<close>

theorem blend_by_calendar_years:
  "(type next_m \<noteq> Sv \<and> year (epoch next_m) \<noteq> year (epoch last_m) \<longrightarrow>
      blend dt last_m next_m model =
        Returns \<lparr>epoch = dt, type = Interpolated,
          coefficients = map2 (\<lambda>a b. a + year_fraction dt last_m next_m * (b - a))
                           (coefficients last_m) (coefficients next_m)\<rparr>) \<and>
   (type next_m = Sv \<longrightarrow>
      blend dt last_m next_m model =
        Returns \<lparr>epoch = dt, type = Extrapolated,
          coefficients = map2 (\<lambda>a b. a + year_offset dt last_m * b)
                           (coefficients last_m) (coefficients next_m)\<rparr>)"
  using blend_interpolates blend_extrapolates by blast

theorem blend_by_calendar_years_witness:
  "blend (DateTime 2022) snapshot_2020 snapshot_2025 (Model_default (DateTime 0)) =
     Returns \<lparr>epoch = DateTime 2022, type = Interpolated,
       coefficients = replicate max_coefficient_size (7 + 2 / 5 * (9 - 7))\<rparr> \<and>
   blend (DateTime 2022) snapshot_2020 rates_2025 (Model_default (DateTime 0)) =
     Returns \<lparr>epoch = DateTime 2022, type = Extrapolated,
       coefficients = replicate max_coefficient_size (7 + 2 * 2)\<rparr>"
proof -
  have interp: "type snapshot_2025 \<noteq> Sv \<and> year (epoch snapshot_2025) \<noteq> year (epoch snapshot_2020)"
    by (simp add: snapshot_2025_def snapshot_2020_def year_def)
  have extra: "type rates_2025 = Sv"
    by (simp add: rates_2025_def)
  have frac: "year_fraction (DateTime 2022) snapshot_2020 snapshot_2025 = 2 / 5"
    by (simp add: year_fraction_def snapshot_2025_def snapshot_2020_def year_def)
  have offs: "year_offset (DateTime 2022) snapshot_2020 = 2"
    by (simp add: year_offset_def snapshot_2020_def year_def)
  from interp frac
    blend_by_calendar_years [of snapshot_2025 snapshot_2020 "DateTime 2022" "Model_default (DateTime 0)"]
  have "blend (DateTime 2022) snapshot_2020 snapshot_2025 (Model_default (DateTime 0)) =
     Returns \<lparr>epoch = DateTime 2022, type = Interpolated,
       coefficients = replicate max_coefficient_size (7 + 2 / 5 * (9 - 7))\<rparr>"
    by (simp add: snapshot_2025_def snapshot_2020_def)
  moreover from extra offs
    blend_by_calendar_years [of rates_2025 snapshot_2020 "DateTime 2022" "Model_default (DateTime 0)"]
  have "blend (DateTime 2022) snapshot_2020 rates_2025 (Model_default (DateTime 0)) =
     Returns \<lparr>epoch = DateTime 2022, type = Extrapolated,
       coefficients = replicate max_coefficient_size (7 + 2 * 2)\<rparr>"
    by (simp add: rates_2025_def snapshot_2020_def)
  ultimately show ?thesis by simp
qed

text \<open>
  C5, as stated. With the mid-year snapshot at 2000.5 as lower bound and the snapshot at
  2005.5 as upper bound, blending at 2000.5 uses the fraction
  \<open>(2000.5 - 2000) / (2005 - 2000) = 1/10\<close>, not 0, and every coefficient of the result is
  1 where the lower snapshot has 0.
\<close>

theorem blend_at_lower_epoch_counterexample:
  "blend (epoch midyear_lower) midyear_lower midyear_upper (Model_default (DateTime 0)) \<noteq>
     Returns \<lparr>epoch = epoch midyear_lower, type = Interpolated,
       coefficients = coefficients midyear_lower\<rparr>"
  by (simp add: blend_def interpolateModel_def midyear_lower_def midyear_upper_def year_def
      Model_default_def max_coefficient_size_def max_degree_def)

text \<open>
  C5, amended. For every snapshot \<open>S\<close> whose epoch is the first instant of its calendar
  year and every upper bracket (which, when it is not a secular-variation snapshot, lies
  in another calendar year), blending at exactly \<open>S\<close>'s own epoch with \<open>S\<close> as the lower
  bound reproduces \<open>S\<close>'s coefficient sequence exactly.
\<close>

theorem blend_at_lower_epoch:
  assumes "on_year_start S" and "wf_Model S" and "wf_Model U"
    and "type U \<noteq> Sv \<longrightarrow> year (epoch U) \<noteq> year (epoch S)"
  shows "blend (epoch S) S U model =
    Returns \<lparr>epoch = epoch S, type = (if type U \<noteq> Sv then Interpolated else Extrapolated),
      coefficients = coefficients S\<rparr>"
proof -
  have len: "length (coefficients S) \<le> length (coefficients U)"
    using assms(2,3) by (simp add: wf_Model_def)
  show ?thesis
  proof (cases "type U = Sv")
    case True
    have "year_offset (epoch S) S = 0"
      using assms(1) by (simp add: year_offset_def on_year_start_def)
    with True len show ?thesis
      by (simp add: blend_extrapolates map2_left_unchanged)
  next
    case False
    with assms(4) have ne: "year (epoch U) \<noteq> year (epoch S)" by simp
    have "year_fraction (epoch S) S U = 0"
      using assms(1) by (simp add: year_fraction_def on_year_start_def)
    with False ne len show ?thesis
      by (simp add: blend_interpolates map2_left_unchanged)
  qed
qed

theorem blend_at_lower_epoch_witness:
  "blend (epoch snapshot_2020) snapshot_2020 snapshot_2025 (Model_default (DateTime 0)) =
     Returns \<lparr>epoch = DateTime 2020, type = Interpolated,
       coefficients = replicate max_coefficient_size 7\<rparr>"
proof -
  have h1: "on_year_start snapshot_2020"
    by (simp add: on_year_start_def snapshot_2020_def year_def)
  have h2: "wf_Model snapshot_2020"
    by (simp add: wf_Model_def snapshot_2020_def)
  have h3: "wf_Model snapshot_2025"
    by (simp add: wf_Model_def snapshot_2025_def)
  have h4: "type snapshot_2025 \<noteq> Sv \<longrightarrow> year (epoch snapshot_2025) \<noteq> year (epoch snapshot_2020)"
    by (simp add: snapshot_2025_def snapshot_2020_def year_def)
  have t: "type snapshot_2025 \<noteq> Sv"
    by (simp add: snapshot_2025_def)
  from blend_at_lower_epoch [OF h1 h2 h3 h4, of "Model_default (DateTime 0)"] t
  show ?thesis
    by (simp add: snapshot_2020_def)
qed


section \<open>The summation loop: counters, divisions, zero coefficients\<close>

lemma loop_entry_inv: "loop_inv 2 (loop_entry ratio cos_theta sin_theta)"
  by (simp add: loop_inv_def loop_entry_def)

lemma next_degree_returns:
  assumes "r \<noteq> 0"
  shows "\<exists>s1. next_degree r s = Returns s1"
  using assms by (simp add: next_degree_def)

lemma next_degree_inv:
  assumes "loop_inv p_idx s" and "next_degree r s = Returns s1"
  shows "pass_inv p_idx s1"
proof (cases "s_n s < s_m s")
  case True
  with assms(2) have s1: "s1 = s\<lparr>s_n := s_n s + 1, s_m := 0, s_ratio := s_ratio s * (earth_radius / r)\<rparr>"
    by (simp add: next_degree_def split: if_splits)
  from True assms(1) have m: "s_m s = s_n s + 1" by (simp add: loop_inv_def)
  with assms(1) show ?thesis
    unfolding s1 by (simp add: loop_inv_def pass_inv_def algebra_simps)
next
  case False
  with assms(2) have "s1 = s" by (simp add: next_degree_def)
  with False assms(1) show ?thesis
    by (auto simp add: loop_inv_def pass_inv_def)
qed

lemma legendre_counters:
  assumes "legendre ct st p_idx s = Returns s2"
  shows "s_n s2 = s_n s \<and> s_m s2 = s_m s \<and> s_c_idx s2 = s_c_idx s \<and> s_ratio s2 = s_ratio s
     \<and> s_b_r s2 = s_b_r s \<and> s_b_t s2 = s_b_t s \<and> s_b_p s2 = s_b_p s"
  using assms by (auto simp add: legendre_def Let_def split: if_splits)

lemma legendre_returns:
  assumes "pass_inv p_idx s"
  shows "\<exists>s2. legendre ct st p_idx s = Returns s2"
proof -
  from assms have n: "1 \<le> s_n s" and m: "0 \<le> s_m s" "s_m s \<le> s_n s"
    by (simp_all add: pass_inv_def)
  have diag: "s_n s = s_m s \<Longrightarrow> 2 * s_m s \<noteq> 0" using n by simp
  have off: "s_n s \<noteq> s_m s \<Longrightarrow> sqrt (of_int (s_n s * s_n s - s_m s * s_m s)) \<noteq> 0"
  proof -
    assume "s_n s \<noteq> s_m s"
    with m have lt: "s_m s < s_n s" by simp
    with m have "s_m s * s_m s < s_n s * s_n s"
      by (simp add: mult_strict_mono')
    then have "s_n s * s_n s - s_m s * s_m s \<noteq> 0" by simp
    then have "(of_int (s_n s * s_n s - s_m s * s_m s) :: real) \<noteq> 0"
      by (simp only: of_int_eq_0_iff not_False_eq_True)
    then show ?thesis by (simp only: real_sqrt_eq_zero_cancel_iff not_False_eq_True)
  qed
  show ?thesis
    using diag off by (auto simp add: legendre_def Let_def)
qed

lemma accumulate_inv:
  assumes "pass_inv p_idx s"
  shows "loop_inv (Suc p_idx) (accumulate ct st cp sp cs p_idx s)"
  using assms by (auto simp add: accumulate_def pass_inv_def loop_inv_def Let_def algebra_simps)


lemma body_step:
  assumes "loop_inv p_idx s" and "r \<noteq> 0"
  shows "\<exists>s'. body r ct st cp sp cs p_idx s = Returns s' \<and> loop_inv (Suc p_idx) s'"
proof -
  from assms(2) obtain s1 where s1: "next_degree r s = Returns s1"
    using next_degree_returns by blast
  with assms(1) have p1: "pass_inv p_idx s1" by (rule next_degree_inv)
  then obtain s2 where s2: "legendre ct st p_idx s1 = Returns s2"
    using legendre_returns by blast
  then have "pass_inv p_idx s2"
    using p1 legendre_counters [OF s2] by (simp add: pass_inv_def)
  then have "loop_inv (Suc p_idx) (accumulate ct st cp sp cs p_idx s2)"
    by (rule accumulate_inv)
  with s1 s2 show ?thesis
    by (simp add: body_def then_do_def)
qed

lemma calc_loop_returns:
  assumes "loop_inv p_idx s" and "r \<noteq> 0"
  shows "\<exists>s'. calc_loop r ct st cp sp cs p_idx s = Returns s'"
  using assms
proof (induction r ct st cp sp cs p_idx s rule: calc_loop.induct)
  case (1 r ct st cp sp cs p_idx s)
  show ?case
  proof (cases "p_idx \<le> p_size")
    case True
    from body_step [OF "1.prems"] obtain s1 where
      b: "body r ct st cp sp cs p_idx s = Returns s1" and i: "loop_inv (Suc p_idx) s1"
      by blast
    from "1.IH" [OF True b] i "1.prems"(2)
    obtain s' where "calc_loop r ct st cp sp cs (p_idx + 1) s1 = Returns s'" by auto
    with True b show ?thesis
      by (simp add: calc_loop.simps [of r ct st cp sp cs p_idx s])
  next
    case False
    then show ?thesis
      by (simp add: calc_loop.simps [of r ct st cp sp cs p_idx s])
  qed
qed

lemma calculateMagDensity_returns:
  assumes "normalize a b position = Returns (r, ct, st, cd, sd)" and "r \<noteq> 0"
  shows "\<exists>v. calculateMagDensity a b model position = Returns v"
proof -
  let ?ratio = "(earth_radius / r) * (earth_radius / r)"
  from calc_loop_returns [OF loop_entry_inv assms(2)]
  obtain s' where "calc_loop r ct st (map (\<lambda>m. cos (real m * longitude position)) [1..<max_degree + 1])
      (map (\<lambda>m. sin (real m * longitude position)) [1..<max_degree + 1]) (coefficients model) 2
      (loop_entry ?ratio ct st) = Returns s'"
    by blast
  with assms show ?thesis
    by (simp add: calculateMagDensity_def then_do_def map_outcome_def Let_def rotate_def)
qed

lemma pass_bound:
  assumes "pass_inv p_idx s" and "p_idx \<le> p_size"
  shows "s_n s \<le> 13 \<and> s_c_idx s + 1 \<le> 195"
proof -
  from assms(1) have n: "1 \<le> s_n s" and m: "0 \<le> s_m s" "s_m s \<le> s_n s"
    and c: "s_c_idx s = s_n s * s_n s + (if s_m s = 0 then 0 else 2 * s_m s - 1)"
    and t: "2 * (int p_idx - 1 - s_m s) = s_n s * (s_n s + 1)"
    by (simp_all add: pass_inv_def)
  from assms(2) have "int p_idx \<le> 105"
    by (simp add: p_size_def max_degree_def)
  with t m have le: "s_n s * (s_n s + 1) \<le> 208" by simp
  have n13: "s_n s \<le> 13"
  proof (rule ccontr)
    assume "\<not> s_n s \<le> 13"
    then have "14 \<le> s_n s" by simp
    then have "14 * 15 \<le> s_n s * (s_n s + 1)"
      by (intro mult_mono) simp_all
    with le show False by simp
  qed
  from n n13 have "s_n s * s_n s \<le> 13 * 13"
    by (intro mult_mono) simp_all
  with c m n13 show ?thesis by (auto split: if_splits)
qed


lemma accumulate_zero:
  assumes inv: "pass_inv p_idx s" and le: "p_idx \<le> p_size"
    and len: "length cs = max_coefficient_size"
    and zero: "\<forall>i. nat (s_c_idx s - 1) \<le> i \<and> i < length cs \<longrightarrow> cs ! i = 0"
  shows "s_b_r (accumulate ct st cp sp cs p_idx s) = s_b_r s \<and>
         s_b_t (accumulate ct st cp sp cs p_idx s) = s_b_t s \<and>
         s_b_p (accumulate ct st cp sp cs p_idx s) = s_b_p s \<and>
         s_c_idx s \<le> s_c_idx (accumulate ct st cp sp cs p_idx s)"
proof -
  from pass_bound [OF inv le] have c: "s_c_idx s + 1 \<le> 195" by simp
  from inv have n1: "1 \<le> s_n s" and m0: "0 \<le> s_m s"
    and ci: "s_c_idx s = s_n s * s_n s + (if s_m s = 0 then 0 else 2 * s_m s - 1)"
    by (simp_all add: pass_inv_def)
  from n1 have "1 * 1 \<le> s_n s * s_n s"
    by (intro mult_mono) simp_all
  with ci m0 have c1: "1 \<le> s_c_idx s"
    by (simp split: if_splits)
  have l: "length cs = 196"
    using len by (simp add: max_coefficient_size_def max_degree_def)
  from c c1 l have "nat (s_c_idx s - 1) < length cs" "nat (s_c_idx s - 1) + 1 < length cs" by simp_all
  with zero have z: "cs ! nat (s_c_idx s - 1) = 0" "cs ! (nat (s_c_idx s - 1) + 1) = 0"
    by simp_all
  show ?thesis
    using z by (simp add: accumulate_def azimuthal_def Let_def)
qed


lemma body_zero:
  assumes inv: "loop_inv p_idx s" and r: "r \<noteq> 0" and le: "p_idx \<le> p_size"
    and len: "length cs = max_coefficient_size"
    and zero: "\<forall>i. nat (s_c_idx s - 1) \<le> i \<and> i < length cs \<longrightarrow> cs ! i = 0"
  shows "\<exists>s'. body r ct st cp sp cs p_idx s = Returns s' \<and> loop_inv (Suc p_idx) s' \<and>
           s_b_r s' = s_b_r s \<and> s_b_t s' = s_b_t s \<and> s_b_p s' = s_b_p s \<and>
           s_c_idx s \<le> s_c_idx s'"
proof -
  from r obtain s1 where s1: "next_degree r s = Returns s1"
    using next_degree_returns by blast
  with inv have p1: "pass_inv p_idx s1" by (rule next_degree_inv)
  from s1 have e1: "s_c_idx s1 = s_c_idx s \<and> s_b_r s1 = s_b_r s \<and> s_b_t s1 = s_b_t s \<and> s_b_p s1 = s_b_p s"
    by (auto simp add: next_degree_def split: if_splits)
  from p1 obtain s2 where s2: "legendre ct st p_idx s1 = Returns s2"
    using legendre_returns by blast
  note e2 = legendre_counters [OF s2]
  from p1 e2 have p2: "pass_inv p_idx s2" by (simp add: pass_inv_def)
  from zero e1 e2 have z2: "\<forall>i. nat (s_c_idx s2 - 1) \<le> i \<and> i < length cs \<longrightarrow> cs ! i = 0"
    by simp
  from accumulate_zero [OF p2 le len z2, of ct st cp sp] accumulate_inv [OF p2, of ct st cp sp cs]
    s1 s2 e1 e2
  show ?thesis
    by (simp add: body_def then_do_def)
qed

lemma calc_loop_zero:
  assumes "loop_inv p_idx s" and "r \<noteq> 0" and "length cs = max_coefficient_size"
    and "\<forall>i. nat (s_c_idx s - 1) \<le> i \<and> i < length cs \<longrightarrow> cs ! i = 0"
  shows "\<exists>s'. calc_loop r ct st cp sp cs p_idx s = Returns s' \<and>
           s_b_r s' = s_b_r s \<and> s_b_t s' = s_b_t s \<and> s_b_p s' = s_b_p s"
  using assms
proof (induction r ct st cp sp cs p_idx s rule: calc_loop.induct)
  case (1 r ct st cp sp cs p_idx s)
  show ?case
  proof (cases "p_idx \<le> p_size")
    case True
    from body_zero [OF "1.prems"(1,2) True "1.prems"(3,4), of ct st cp sp] obtain s1 where
      b: "body r ct st cp sp cs p_idx s = Returns s1" and i: "loop_inv (Suc p_idx) s1"
      and e: "s_b_r s1 = s_b_r s" "s_b_t s1 = s_b_t s" "s_b_p s1 = s_b_p s"
      and c: "s_c_idx s \<le> s_c_idx s1"
      by blast
    from c have "nat (s_c_idx s - 1) \<le> nat (s_c_idx s1 - 1)" by simp
    with "1.prems"(4)
    have z: "\<forall>i. nat (s_c_idx s1 - 1) \<le> i \<and> i < length cs \<longrightarrow> cs ! i = 0"
      by (meson order_trans)
    from "1.IH" [OF True b] i "1.prems"(2,3) z
    obtain s' where "calc_loop r ct st cp sp cs (p_idx + 1) s1 = Returns s'"
      and "s_b_r s' = s_b_r s1" "s_b_t s' = s_b_t s1" "s_b_p s' = s_b_p s1"
      by auto
    with True b e show ?thesis
      by (simp add: calc_loop.simps [of r ct st cp sp cs p_idx s])
  next
    case False
    then show ?thesis
      by (simp add: calc_loop.simps [of r ct st cp sp cs p_idx s])
  qed
qed

lemma dipole_first_pass:
  "\<exists>s1. body 6371200 0 1 cp sp dipole_coefficients 2 (loop_entry 1 0 1) = Returns s1 \<and>
     loop_inv 3 s1 \<and> s_c_idx s1 = 2 \<and> s_b_r s1 = 0 \<and> s_b_t s1 = - 30000 \<and> s_b_p s1 = 0"
  by (simp add: body_def next_degree_def legendre_def accumulate_def then_do_def loop_entry_def
      Let_def loop_inv_def dipole_coefficients_def earth_radius_def p_size_def max_degree_def)

lemma dipole_loop:
  "\<exists>s'. calc_loop 6371200 0 1 cp sp dipole_coefficients 2 (loop_entry 1 0 1) = Returns s' \<and>
     s_b_r s' = 0 \<and> s_b_t s' = - 30000 \<and> s_b_p s' = 0"
proof -
  from dipole_first_pass [of cp sp] obtain s1 where
    b: "body 6371200 0 1 cp sp dipole_coefficients 2 (loop_entry 1 0 1) = Returns s1"
    and i: "loop_inv 3 s1" and c: "s_c_idx s1 = 2"
    and e: "s_b_r s1 = 0" "s_b_t s1 = - 30000" "s_b_p s1 = 0"
    by blast
  have len: "length dipole_coefficients = max_coefficient_size"
    by (simp add: dipole_coefficients_def max_coefficient_size_def)
  have z: "\<forall>i. nat (s_c_idx s1 - 1) \<le> i \<and> i < length dipole_coefficients \<longrightarrow> dipole_coefficients ! i = 0"
    using c by (auto simp add: dipole_coefficients_def nth_Cons split: nat.splits)
  have r: "(6371200::real) \<noteq> 0" by simp
  from calc_loop_zero [OF i r len z, of 0 1 cp sp] e
  obtain s' where "calc_loop 6371200 0 1 cp sp dipole_coefficients 3 s1 = Returns s'"
    and "s_b_r s' = 0" "s_b_t s' = - 30000" "s_b_p s' = 0"
    by auto
  with b show ?thesis
    by (simp add: calc_loop.simps [of _ _ _ _ _ _ 2] p_size_def max_degree_def)
qed

lemma tilted_two_passes:
  assumes "cp ! 0 = 1" and "sp ! 0 = 0"
  shows "\<exists>s1 s2. body 6371200 0 1 cp sp tilted_coefficients 2 (loop_entry 1 0 1) = Returns s1 \<and>
     body 6371200 0 1 cp sp tilted_coefficients 3 s1 = Returns s2 \<and>
     loop_inv 4 s2 \<and> s_c_idx s2 = 4 \<and> s_b_r s2 = - 3000 \<and> s_b_t s2 = - 30000 \<and> s_b_p s2 = - 5000"
  using assms
  by (simp add: body_def next_degree_def legendre_def accumulate_def azimuthal_def then_do_def
      loop_entry_def Let_def loop_inv_def tilted_coefficients_def earth_radius_def p_size_def
      max_degree_def)

lemma tilted_loop:
  assumes "cp ! 0 = 1" and "sp ! 0 = 0"
  shows "\<exists>s'. calc_loop 6371200 0 1 cp sp tilted_coefficients 2 (loop_entry 1 0 1) = Returns s' \<and>
     s_b_r s' = - 3000 \<and> s_b_t s' = - 30000 \<and> s_b_p s' = - 5000"
proof -
  from tilted_two_passes [OF assms] obtain s1 s2 where
    b1: "body 6371200 0 1 cp sp tilted_coefficients 2 (loop_entry 1 0 1) = Returns s1"
    and b2: "body 6371200 0 1 cp sp tilted_coefficients 3 s1 = Returns s2"
    and i: "loop_inv 4 s2" and c: "s_c_idx s2 = 4"
    and e: "s_b_r s2 = - 3000" "s_b_t s2 = - 30000" "s_b_p s2 = - 5000"
    by blast
  have len: "length tilted_coefficients = max_coefficient_size"
    by (simp add: tilted_coefficients_def max_coefficient_size_def max_degree_def)
  have z: "\<forall>i. nat (s_c_idx s2 - 1) \<le> i \<and> i < length tilted_coefficients \<longrightarrow>
             tilted_coefficients ! i = 0"
    using c by (auto simp add: tilted_coefficients_def nth_Cons nth_append split: nat.splits)
  have r: "(6371200::real) \<noteq> 0" by simp
  from calc_loop_zero [OF i r len z, of 0 1 cp sp] e
  obtain s' where "calc_loop 6371200 0 1 cp sp tilted_coefficients 4 s2 = Returns s'"
    and "s_b_r s' = - 3000" "s_b_t s' = - 30000" "s_b_p s' = - 5000"
    by auto
  with b1 b2 show ?thesis
    by (simp add: calc_loop.simps [of _ _ _ _ _ _ 2] calc_loop.simps [of _ _ _ _ _ _ 3]
        p_size_def max_degree_def)
qed

section \<open>Properties of the packing\<close>

text \<open>
  The full loop changes its counters as \<open>count_step\<close> says, and one pass depends on the
  coefficient array only through the slots listed by \<open>pass_slots\<close>.
\<close>

lemma body_counters:
  assumes "body r ct st cp sp cs p_idx s = Returns s'"
  shows "(s_n s', s_m s', s_c_idx s') = count_step (s_n s, s_m s, s_c_idx s)"
  using assms
  by (auto simp add: body_def next_degree_def legendre_def accumulate_def then_do_def count_step_def
      Let_def split: if_splits outcome.splits)

lemma body_reads_pass_slots:
  assumes "\<forall>i \<in> set (map fst (pass_slots (s_n s, s_m s, s_c_idx s))). cs ! i = cs' ! i"
  shows "body r ct st cp sp cs p_idx s = body r ct st cp sp cs' p_idx s"
proof -
  have "accumulate ct st cp sp cs p_idx s2 = accumulate ct st cp sp cs' p_idx s2"
    if "next_degree r s = Returns s1" and "legendre ct st p_idx s1 = Returns s2" for s1 s2
  proof -
    from that(2) have "s_n s2 = s_n s1 \<and> s_m s2 = s_m s1 \<and> s_c_idx s2 = s_c_idx s1"
      by (auto simp add: legendre_def Let_def split: if_splits)
    moreover from that(1) have "s_c_idx s1 = s_c_idx s \<and>
        s_n s1 = (if s_n s < s_m s then s_n s + 1 else s_n s) \<and>
        s_m s1 = (if s_n s < s_m s then 0 else s_m s)"
      by (auto simp add: next_degree_def split: if_splits)
    ultimately show ?thesis
      using assms by (auto simp add: accumulate_def pass_slots_def Let_def split: if_splits)
  qed
  then show ?thesis
    by (auto simp add: body_def then_do_def split: outcome.splits)
qed

text \<open>
  C3, as stated. The specification gives every snapshot a sequence of exactly 195
  doubles. The array of the code has \<open>max_degree * (max_degree + 2) + 1 = 196\<close> slots, one
  more than there are Gauss coefficients.
\<close>

theorem coefficient_array_not_195:
  "length (coefficients (Model_default (DateTime 0))) \<noteq> 195 \<and>
   max_coefficient_size \<noteq> max_degree * (max_degree + 2)"
  by (simp add: Model_default_def max_coefficient_size_def max_degree_def)

text \<open>
  C3, amended. Every coefficient snapshot stores its Gauss coefficients in a fixed-length
  sequence of exactly \<open>n_max * (n_max + 2) + 1 = 196\<close> doubles. Its first
  \<open>n_max * (n_max + 2) = 195\<close> slots hold the coefficients in canonical IGRF column order
  (for degree \<open>n = 1..13\<close>, order \<open>m = 0..n\<close>: one value for \<open>m = 0\<close>, two values \<open>g, h\<close> for
  \<open>m \<ge> 1\<close>): in its 104 passes the summation loop reads slot \<open>i\<close> as the \<open>i\<close>-th
  coefficient of that order, for \<open>i\<close> from 0 to 194, and no other slot.
\<close>

theorem coefficient_array_and_packing:
  "max_coefficient_size = 196 \<and> max_degree * (max_degree + 2) = 195 \<and>
   length canonical_slots = max_degree * (max_degree + 2) \<and>
   loop_slots (p_size - 1) (0, 1, 1) = zip [0..<max_degree * (max_degree + 2)] canonical_slots"
  by code_simp

section \<open>Properties of the normalisation\<close>

text \<open>
  C8. For a geodetic position with latitude 0 and height 0 the normalisation yields the
  rotation angle \<open>\<delta> = 0\<close> (\<open>cos \<delta> = 1\<close>, \<open>sin \<delta> = 0\<close>) and a geocentric radius equal to
  the equatorial semi-axis \<open>a\<close> of the ellipsoid (a positive length); the geocentric
  colatitude is that of the equator.
\<close>

theorem equator_normalization:
  assumes "0 < wgs84_a"
  shows "normalize wgs84_a wgs84_b
           \<lparr>pos_epoch = dt, pos_type = Wgs84, altitude = 0, longitude = lon, latitude = 0\<rparr>
         = Returns (wgs84_a, 0, 1, 1, 0)"
  using assms by (simp add: normalize_def Let_def real_sqrt_mult_self)

theorem equator_normalization_witness:
  "normalize wgs84_a_metres wgs84_b_metres
     \<lparr>pos_epoch = DateTime 2022, pos_type = Wgs84, altitude = 0, longitude = 0, latitude = 0\<rparr>
   = Returns (6378137, 0, 1, 1, 0)"
proof -
  have "0 < wgs84_a_metres" by (simp add: wgs84_a_metres_def)
  from equator_normalization [OF this, of wgs84_b_metres "DateTime 2022" 0]
  show ?thesis by (simp add: wgs84_a_metres_def)
qed

section \<open>Properties of the queries\<close>

lemma initializeModel_same_table:
  assumes "m_model_set s = m_model_set t"
  shows "fst (initializeModel s dt) = fst (initializeModel t dt) \<and>
         coefficients (m_model (snd (initializeModel s dt))) = coefficients (m_model (snd (initializeModel t dt))) \<or>
         fst (initializeModel s dt) = fst (initializeModel t dt) \<and> fst (initializeModel s dt) \<noteq> Returns ()"
  using assms
  by (auto simp add: initializeModel_def blend_def interpolateModel_def extrapolateModel_def Let_def
      split: outcome.splits prod.splits if_splits)

lemma calculateMagDensity_reads_coefficients:
  assumes "coefficients m1 = coefficients m2"
  shows "calculateMagDensity a b m1 q = calculateMagDensity a b m2 q"
  by (simp only: calculateMagDensity_def assms)

lemma updatePositionAndMag_same_table:
  assumes "m_model_set s = m_model_set t"
  shows "fst (updatePositionAndMag a b s q) = fst (updatePositionAndMag a b t q)"
proof -
  obtain r1 s1 where i1: "initializeModel s (pos_epoch q) = (r1, s1)" by (cases "initializeModel s (pos_epoch q)")
  obtain r2 s2 where i2: "initializeModel t (pos_epoch q) = (r2, s2)" by (cases "initializeModel t (pos_epoch q)")
  from initializeModel_same_table [OF assms, of "pos_epoch q"] i1 i2
  have "r1 = r2 \<and> (coefficients (m_model s1) = coefficients (m_model s2) \<or> r1 \<noteq> Returns ())"
    by auto
  then show ?thesis
    using i1 i2 calculateMagDensity_reads_coefficients [of "m_model s1" "m_model s2" a b q]
    by (auto simp add: updatePositionAndMag_def split: outcome.splits)
qed

lemma initializeModel_keeps_table: "m_model_set (snd (initializeModel s dt)) = m_model_set s"
  by (auto simp add: initializeModel_def split: outcome.splits prod.splits)

lemma updatePositionAndMag_keeps_table:
  "m_model_set (snd (updatePositionAndMag a b s q)) = m_model_set s"
  using initializeModel_keeps_table [of s "pos_epoch q"]
  by (auto simp add: updatePositionAndMag_def split: outcome.splits prod.splits)

lemma Igrf_call_same_table:
  assumes "m_model_set s = m_model_set t"
  shows "fst (Igrf_call a b s q) = fst (Igrf_call a b t q)"
  using updatePositionAndMag_same_table [OF assms, of a b q]
  by (simp add: Igrf_call_def case_prod_beta)

lemma Igrf_call_keeps_table: "m_model_set (snd (Igrf_call a b s q)) = m_model_set s"
  using updatePositionAndMag_keeps_table [of a b s q]
  by (simp add: Igrf_call_def case_prod_beta)
lemma two_snapshots_2022:
  "initializeModel (Igrf_new (DateTime 0) two_snapshots) (DateTime 2022) =
     (Returns (), \<lparr>m_model = \<lparr>epoch = DateTime 2022, type = Interpolated,
         coefficients = replicate max_coefficient_size (7 + 2 / 5 * (9 - 7))\<rparr>,
       m_model_set = two_snapshots\<rparr>)"
  by (simp add: initializeModel_def select_def lower_bound_def less_DateTime_def two_snapshots_def
      snapshot_2020_def snapshot_2025_def Igrf_new_def blend_def interpolateModel_def year_def
      Model_default_def)

lemma orbit_point_normalized:
  "normalize a b orbit_point = Returns (7000000, 0, 1, 1, 0)"
  by (simp add: normalize_def orbit_point_def)

text \<open>
  C7. For two queries evaluated one after the other on the same engine, the first of
  which returned or threw, the result of the second is the result of the same query on
  an engine freshly constructed from the same coefficient table.
\<close>

theorem query_independent_of_history:
  assumes "m_model_set s = model_set" and "Igrf_call a b s q1 = (r1, s1)"
    and "r1 \<noteq> Undefined" and "r1 \<noteq> DivisionByZero"
  shows "fst (Igrf_call a b s1 q2) = fst (Igrf_call a b (Igrf_new d0 model_set) q2)"
proof -
  from assms(2) have "s1 = snd (Igrf_call a b s q1)" by simp
  then have "m_model_set s1 = m_model_set s" by (simp add: Igrf_call_keeps_table)
  with assms(1) have "m_model_set s1 = m_model_set (Igrf_new d0 model_set)"
    by (simp add: Igrf_new_def)
  then show ?thesis by (rule Igrf_call_same_table)
qed

theorem query_independent_of_history_witness:
  "fst (Igrf_call wgs84_a_metres wgs84_b_metres
          (snd (Igrf_call wgs84_a_metres wgs84_b_metres (Igrf_new (DateTime 0) two_snapshots) orbit_point))
          equator_point) =
   fst (Igrf_call wgs84_a_metres wgs84_b_metres (Igrf_new (DateTime 0) two_snapshots) equator_point)"
proof -
  let ?s = "Igrf_new (DateTime 0) two_snapshots"
  let ?c = "Igrf_call wgs84_a_metres wgs84_b_metres ?s orbit_point"
  have r: "(7000000::real) \<noteq> 0" by simp
  from calculateMagDensity_returns [OF orbit_point_normalized r]
  obtain v where "calculateMagDensity wgs84_a_metres wgs84_b_metres
      (m_model (snd (initializeModel ?s (DateTime 2022)))) orbit_point = Returns v"
    by blast
  then have "fst ?c = Returns (scale nanotesla_to_tesla v)"
    by (simp add: Igrf_call_def updatePositionAndMag_def two_snapshots_2022 orbit_point_def
        map_outcome_def then_do_def)
  then have ok: "fst ?c \<noteq> Undefined" "fst ?c \<noteq> DivisionByZero"
    by simp_all
  have t: "m_model_set ?s = two_snapshots" by (simp add: Igrf_new_def)
  have p: "?c = (fst ?c, snd ?c)" by simp
  from query_independent_of_history [OF t p ok] show ?thesis .
qed

lemma dipole_table_2023:
  "initializeModel (Igrf_new (DateTime 0) dipole_table) (DateTime 2023) =
     (Returns (), \<lparr>m_model = \<lparr>epoch = DateTime 2023, type = Interpolated,
         coefficients = dipole_coefficients\<rparr>,
       m_model_set = dipole_table\<rparr>)"
  by (simp add: initializeModel_def select_def lower_bound_def less_DateTime_def dipole_table_def
      Igrf_new_def blend_def interpolateModel_def year_def Model_default_def
      dipole_coefficients_def)

lemma dipole_at_equator:
  "calculateMagDensity a b \<lparr>epoch = dt, type = ty, coefficients = dipole_coefficients\<rparr> equator_point =
     Returns (30000, 0, 0)"
proof -
  have n: "normalize a b equator_point = Returns (6371200, 0, 1, 1, 0)"
    by (simp add: normalize_def equator_point_def)
  define cp where "cp = map (\<lambda>m. cos (real m * longitude equator_point)) [1..<max_degree + 1]"
  define sp where "sp = map (\<lambda>m. sin (real m * longitude equator_point)) [1..<max_degree + 1]"
  have c: "calculateMagDensity a b \<lparr>epoch = dt, type = ty, coefficients = dipole_coefficients\<rparr> equator_point =
      map_outcome (rotate 1 0) (calc_loop 6371200 0 1 cp sp dipole_coefficients 2 (loop_entry 1 0 1))"
    unfolding calculateMagDensity_def n cp_def sp_def
    by (simp add: then_do_def Let_def earth_radius_def)
  obtain s' where l: "calc_loop 6371200 0 1 cp sp dipole_coefficients 2 (loop_entry 1 0 1) = Returns s'"
    and b: "s_b_r s' = 0" "s_b_t s' = - 30000" "s_b_p s' = 0"
    using dipole_loop by blast
  show ?thesis
    unfolding c l by (simp add: then_do_def map_outcome_def b rotate_def)
qed

lemma dipole_query_nanotesla:
  "fst (updatePositionAndMag wgs84_a_metres wgs84_b_metres
          (Igrf_new (DateTime 0) dipole_table) equator_point) = Returns (30000, 0, 0)"
proof -
  have e: "pos_epoch equator_point = DateTime 2023" by (simp add: equator_point_def)
  show ?thesis
    by (simp add: updatePositionAndMag_def e dipole_table_2023 dipole_at_equator)
qed

lemma blend_returns:
  assumes "type next_m \<noteq> Sv \<longrightarrow> year (epoch next_m) \<noteq> year (epoch last_m)"
  shows "\<exists>mdl. blend dt last_m next_m model = Returns mdl"
proof (cases "type next_m = Sv")
  case True
  then show ?thesis by (simp add: blend_extrapolates)
next
  case False
  with assms have "year (epoch next_m) \<noteq> year (epoch last_m)" by simp
  with False show ?thesis by (simp add: blend_interpolates)
qed

lemma tilted_blend_2023:
  "blend (DateTime 2023)
     \<lparr>epoch = DateTime 2020, type = Igrf, coefficients = tilted_coefficients\<rparr>
     \<lparr>epoch = DateTime 2025, type = Igrf, coefficients = tilted_coefficients\<rparr> mdl =
   Returns \<lparr>epoch = DateTime 2023, type = Interpolated, coefficients = tilted_coefficients\<rparr>"
  by (simp add: blend_def interpolateModel_def year_def tilted_coefficients_def)

text \<open>
  C2, as stated. The specification has the query return the field vector in nanotesla.
  For the axial dipole \<open>g(1,0) = -30000\<close> nT and a point of the equator on the reference
  sphere the synthesis gives 30000 nT north, 0 east, 0 down; the query returns another
  vector, this one multiplied by \<open>1.0e-9\<close>.
\<close>

theorem Igrf_call_not_nanotesla:
  "fst (updatePositionAndMag wgs84_a_metres wgs84_b_metres
          (Igrf_new (DateTime 0) dipole_table) equator_point) = Returns (30000, 0, 0) \<and>
   fst (Igrf_call wgs84_a_metres wgs84_b_metres
          (Igrf_new (DateTime 0) dipole_table) equator_point) \<noteq> Returns (30000, 0, 0)"
  using dipole_query_nanotesla
  by (simp add: Igrf_call_def case_prod_beta map_outcome_def then_do_def scale_def
      nanotesla_to_tesla_def)

text \<open>
  C2, amended. For every valid epoch and position (the table brackets the epoch, by two
  snapshots of different calendar years when it interpolates, and the position has a
  non-zero geocentric radius), the public query operation returns the three-component
  field vector in north, east, down order expressed in tesla: with \<open>Br\<close>, \<open>B\<theta>\<close> and
  \<open>B\<phi>\<close> the radial, polar and azimuthal sums the loop ends with on the blended
  coefficients, the synthesised nanotesla vector is
  \<open>(- B\<theta> * cos \<delta> - Br * sin \<delta>, B\<phi>, B\<theta> * sin \<delta> - Br * cos \<delta>)\<close>, and the query returns
  each of its components multiplied by \<open>1.0e-9\<close>.
\<close>

theorem Igrf_call_in_tesla:
  assumes "select (m_model_set s) (pos_epoch position) = Returns (last_m, next_m)"
    and "type next_m \<noteq> Sv \<longrightarrow> year (epoch next_m) \<noteq> year (epoch last_m)"
    and "normalize wgs84_a wgs84_b position = Returns (r, cos_theta, sin_theta, cos_delta, sin_delta)"
    and "r \<noteq> 0"
  shows "\<exists>model s'.
    blend (pos_epoch position) last_m next_m (m_model s) = Returns model \<and>
    calc_loop r cos_theta sin_theta
      (map (\<lambda>m. cos (real m * longitude position)) [1..<max_degree + 1])
      (map (\<lambda>m. sin (real m * longitude position)) [1..<max_degree + 1])
      (coefficients model) 2
      (loop_entry ((earth_radius / r) * (earth_radius / r)) cos_theta sin_theta) = Returns s' \<and>
    fst (updatePositionAndMag wgs84_a wgs84_b s position) =
      Returns (- s_b_t s' * cos_delta - s_b_r s' * sin_delta,
               s_b_p s',
               s_b_t s' * sin_delta - s_b_r s' * cos_delta) \<and>
    fst (Igrf_call wgs84_a wgs84_b s position) =
      Returns ((- s_b_t s' * cos_delta - s_b_r s' * sin_delta) * (1 / 10 ^ 9),
               s_b_p s' * (1 / 10 ^ 9),
               (s_b_t s' * sin_delta - s_b_r s' * cos_delta) * (1 / 10 ^ 9))"
proof -
  define cp where "cp = map (\<lambda>m. cos (real m * longitude position)) [1..<max_degree + 1]"
  define sp where "sp = map (\<lambda>m. sin (real m * longitude position)) [1..<max_degree + 1]"
  define ratio where "ratio = (earth_radius / r) * (earth_radius / r)"
  from blend_returns [OF assms(2)] obtain model where
    b: "blend (pos_epoch position) last_m next_m (m_model s) = Returns model" by blast
  with assms(1) have i: "initializeModel s (pos_epoch position) = (Returns (), s\<lparr>m_model := model\<rparr>)"
    by (simp add: initializeModel_def)
  from calc_loop_returns [OF loop_entry_inv assms(4)] obtain s' where
    l: "calc_loop r cos_theta sin_theta cp sp (coefficients model) 2
          (loop_entry ratio cos_theta sin_theta) = Returns s'" by blast
  have "calculateMagDensity wgs84_a wgs84_b model position =
      map_outcome (rotate cos_delta sin_delta)
        (calc_loop r cos_theta sin_theta cp sp (coefficients model) 2
           (loop_entry ratio cos_theta sin_theta))"
    unfolding calculateMagDensity_def assms(3) cp_def sp_def ratio_def
    using assms(4) by (simp add: then_do_def Let_def)
  with l have c: "calculateMagDensity wgs84_a wgs84_b model position =
      Returns (- s_b_t s' * cos_delta - s_b_r s' * sin_delta, s_b_p s',
               s_b_t s' * sin_delta - s_b_r s' * cos_delta)"
    by (simp add: map_outcome_def then_do_def rotate_def)
  from i c have u: "fst (updatePositionAndMag wgs84_a wgs84_b s position) =
      Returns (- s_b_t s' * cos_delta - s_b_r s' * sin_delta, s_b_p s',
               s_b_t s' * sin_delta - s_b_r s' * cos_delta)"
    by (simp add: updatePositionAndMag_def)
  then have q: "fst (Igrf_call wgs84_a wgs84_b s position) =
      Returns ((- s_b_t s' * cos_delta - s_b_r s' * sin_delta) * (1 / 10 ^ 9),
               s_b_p s' * (1 / 10 ^ 9),
               (s_b_t s' * sin_delta - s_b_r s' * cos_delta) * (1 / 10 ^ 9))"
    by (simp add: Igrf_call_def case_prod_beta map_outcome_def then_do_def scale_def
        nanotesla_to_tesla_def)
  from b l u q show ?thesis
    unfolding cp_def sp_def ratio_def by blast
qed

theorem Igrf_call_in_tesla_witness:
  "fst (Igrf_call wgs84_a_metres wgs84_b_metres (Igrf_new (DateTime 0) tilted_table) equator_point)
     = Returns (30000 / 10 ^ 9, - 5000 / 10 ^ 9, 3000 / 10 ^ 9)"
proof -
  let ?s = "Igrf_new (DateTime 0) tilted_table"
  let ?l = "\<lparr>epoch = DateTime 2020, type = Igrf, coefficients = tilted_coefficients\<rparr>"
  let ?u = "\<lparr>epoch = DateTime 2025, type = Igrf, coefficients = tilted_coefficients\<rparr>"
  let ?cp = "map (\<lambda>m. cos (real m * longitude equator_point)) [1..<max_degree + 1]"
  let ?sp = "map (\<lambda>m. sin (real m * longitude equator_point)) [1..<max_degree + 1]"
  have e: "pos_epoch equator_point = DateTime 2023" by (simp add: equator_point_def)
  have h1: "select (m_model_set ?s) (pos_epoch equator_point) = Returns (?l, ?u)"
    by (simp add: select_def lower_bound_def less_DateTime_def tilted_table_def Igrf_new_def
        equator_point_def)
  have h2: "type ?u \<noteq> Sv \<longrightarrow> year (epoch ?u) \<noteq> year (epoch ?l)"
    by (simp add: year_def)
  have h3: "normalize wgs84_a_metres wgs84_b_metres equator_point = Returns (6371200, 0, 1, 1, 0)"
    by (simp add: normalize_def equator_point_def)
  have h4: "(6371200::real) \<noteq> 0" by simp
  have one: "earth_radius / 6371200 * (earth_radius / 6371200) = 1"
    by (simp add: earth_radius_def)
  have cp: "?cp ! 0 = 1" and sp: "?sp ! 0 = 0"
    by (simp_all add: max_degree_def equator_point_def)
  from Igrf_call_in_tesla [OF h1 h2 h3 h4] obtain model s' where
    b: "blend (pos_epoch equator_point) ?l ?u (m_model ?s) = Returns model"
    and l: "calc_loop 6371200 0 1 ?cp ?sp (coefficients model) 2
              (loop_entry (earth_radius / 6371200 * (earth_radius / 6371200)) 0 1) = Returns s'"
    and q: "fst (Igrf_call wgs84_a_metres wgs84_b_metres ?s equator_point) =
      Returns ((- s_b_t s' * 1 - s_b_r s' * 0) * (1 / 10 ^ 9), s_b_p s' * (1 / 10 ^ 9),
               (s_b_t s' * 0 - s_b_r s' * 1) * (1 / 10 ^ 9))"
    by blast
  from b have m: "coefficients model = tilted_coefficients"
    unfolding e tilted_blend_2023 by auto
  from tilted_loop [OF cp sp] obtain s'' where
    l': "calc_loop 6371200 0 1 ?cp ?sp tilted_coefficients 2 (loop_entry 1 0 1) = Returns s''"
    and v: "s_b_r s'' = - 3000" "s_b_t s'' = - 30000" "s_b_p s'' = - 5000"
    by blast
  from l l' have "s' = s''" unfolding m one by simp
  with q v show ?thesis by simp
qed

text \<open>
  C10. For every epoch and position, the wrapper queried in unit mode \<open>Si\<close>, \<open>Tesla\<close>,
  \<open>Mks\<close> or \<open>Mksa\<close> returns what the engine built from the same model set returns: both
  scale the synthesised nanotesla vector by the same factor \<open>1.0e-9\<close>.
\<close>

theorem GeoMagFlux_tesla_units:
  assumes "unit \<in> {Si, Tesla, Mks, Mksa}"
  shows "fst (GeoMagFlux_call wgs84_a wgs84_b (GeoMagFlux_new d0 model_set unit) position) =
         fst (Igrf_call wgs84_a wgs84_b (Igrf_new d0 model_set) position) \<and>
         m_unit_scale (GeoMagFlux_new d0 model_set unit) = nanotesla_to_tesla \<and>
         nanotesla_to_tesla = 1 / 10 ^ 9"
  using assms
  by (auto simp add: GeoMagFlux_call_def GeoMagFlux_new_def setScaling_def Igrf_call_def
      case_prod_beta nanotesla_to_tesla_def)

theorem GeoMagFlux_tesla_units_witness:
  "fst (GeoMagFlux_call wgs84_a_metres wgs84_b_metres
          (GeoMagFlux_new (DateTime 0) two_snapshots Si) orbit_point) =
   fst (Igrf_call wgs84_a_metres wgs84_b_metres (Igrf_new (DateTime 0) two_snapshots) orbit_point) \<and>
   m_unit_scale (GeoMagFlux_new (DateTime 0) two_snapshots Si) = 1 / 10 ^ 9"
proof -
  have "Si \<in> {Si, Tesla, Mks, Mksa}" by simp
  from GeoMagFlux_tesla_units [OF this, of wgs84_a_metres wgs84_b_metres "DateTime 0" two_snapshots orbit_point]
  show ?thesis by simp
qed

section \<open>Properties of the stream reader\<close>

lemma coeff_tokens_column:
  assumes "3 \<le> colum" and "3 \<le> colum'"
  shows "coeff_tokens stod c_i colum m_i ms elms = coeff_tokens stod c_i colum' m_i ms elms"
  using assms
proof (induction elms arbitrary: colum colum' m_i ms)
  case Nil
  show ?case by simp
next
  case (Cons elm rest)
  have a: "3 \<le> Suc colum" "3 \<le> Suc colum'" using Cons.prems by simp_all
  note ih = Cons.IH [OF a]
  show ?case
    using Cons.prems by (auto simp add: ih split: option.splits)
qed

lemma coeff_tokens_no_throw: "coeff_tokens stod c_i colum m_i ms elms \<noteq> Throws e"
  by (induction elms arbitrary: colum m_i ms) (simp_all split: option.splits)

lemma epoch_tokens_no_throw: "epoch_tokens stoi doy i ms elms \<noteq> Throws e"
  by (induction elms arbitrary: i ms) (simp_all split: option.splits)


lemma read_lines_no_throw: "read_lines stod stoi doy d0 c_i ms lines \<noteq> Throws e"
proof (induction lines arbitrary: c_i ms)
  case Nil
  show ?case by simp
next
  case (Cons line rest)
  note c = coeff_tokens_no_throw [of stod c_i 0 0 ms "tokens line"]
  note d = epoch_tokens_no_throw [of stoi doy 0 ms "tokens line"]
  show ?case
  proof (cases "getModelFileRowType line")
    case Unknown_row
    then show ?thesis using Cons.IH by simp
  next
    case Comment_row
    then show ?thesis using Cons.IH by simp
  next
    case ModelType_row
    then show ?thesis using Cons.IH by simp
  next
    case Epoch_row
    then show ?thesis using Cons.IH d by (simp split: outcome.splits)
  next
    case GCoeffecient_row
    then show ?thesis using Cons.IH c by (simp split: outcome.splits prod.splits)
  next
    case HCoeffecient_row
    then show ?thesis using Cons.IH c by (simp split: outcome.splits prod.splits)
  qed
qed


lemma coeff_tokens_skip:
  assumes "stod elm = None" and "3 \<le> colum + length pre"
  shows "coeff_tokens stod c_i colum m_i ms (pre @ elm # post) =
         coeff_tokens stod c_i colum m_i ms (pre @ post)"
  using assms(2)
proof (induction pre arbitrary: colum m_i ms)
  case Nil
  then have "3 \<le> colum" by simp
  then show ?case
    using assms(1) coeff_tokens_column [of "Suc colum" colum stod c_i m_i ms post] by simp
next
  case (Cons x xs)
  then have "3 \<le> Suc colum + length xs" by simp
  note ih = Cons.IH [OF this]
  show ?case
    by (auto simp add: ih split: option.splits)
qed

lemma epoch_tokens_skip:
  assumes "stoi (epoch_year_text elm) = None"
  shows "epoch_tokens stoi doy i ms (pre @ elm # post) = epoch_tokens stoi doy i ms (pre @ post)"
proof (induction pre arbitrary: i ms)
  case Nil
  show ?case using assms by simp
next
  case (Cons x xs)
  show ?case
    by (simp add: Cons.IH split: option.splits)
qed
lemma sample_stream_read:
  "ModelSet_read sample_stod sample_stoi sample_date (DateTime 0) sample_stream =
     Returns
       [\<lparr>epoch = DateTime 1900, type = Igrf,
          coefficients = (replicate max_coefficient_size 0)[0 := - 31543]\<rparr>,
        \<lparr>epoch = DateTime 1905, type = Sv,
          coefficients = (replicate max_coefficient_size 0)[0 := 15]\<rparr>]"
  by (simp add: ModelSet_read_def sample_stream_def getModelFileRowType_def tokens_def is_space_def
      model_row_def getModelType_def Model_default_def epoch_year_text_def sample_stoi_def
      sample_stod_def sample_date_def is_digit_def digits_value_def max_coefficient_size_def
      max_degree_def)

text \<open>
  C9. A token of a coefficient row that \<^verbatim>\<open>std::stod\<close> rejects, and a token of the epoch
  row whose year \<^verbatim>\<open>std::stoi\<close> rejects, is skipped and reading continues: the row is read
  as if the token were not there. Reading a stream never ends with an exception.
\<close>

theorem non_numeric_token_is_skipped:
  "(stod elm = None \<and> 3 \<le> colum + length pre \<longrightarrow>
      coeff_tokens stod c_i colum m_i ms (pre @ elm # post) =
      coeff_tokens stod c_i colum m_i ms (pre @ post)) \<and>
   (stoi (epoch_year_text elm) = None \<longrightarrow>
      epoch_tokens stoi date_of_year i ms (pre @ elm # post) =
      epoch_tokens stoi date_of_year i ms (pre @ post)) \<and>
   ModelSet_read stod stoi date_of_year d0 lines \<noteq> Throws e"
  using coeff_tokens_skip [of stod elm colum pre c_i m_i ms post]
    epoch_tokens_skip [of stoi elm date_of_year i ms pre post]
    read_lines_no_throw [of stod stoi date_of_year d0 0 "[]" lines e]
  by (simp add: ModelSet_read_def)

theorem non_numeric_token_is_skipped_witness:
  "coeff_tokens sample_stod 0 0 0 [Model_default (DateTime 0), Model_default (DateTime 0)]
     ([''g'', ''1'', ''0'', ''-31543''] @ ''n/a'' # [''15'']) =
   coeff_tokens sample_stod 0 0 0 [Model_default (DateTime 0), Model_default (DateTime 0)]
     ([''g'', ''1'', ''0'', ''-31543''] @ [''15'']) \<and>
   epoch_tokens sample_stoi sample_date 0 [Model_default (DateTime 0), Model_default (DateTime 0)]
     ([''g/h'', ''n'', ''m'', ''1900.0''] @ ''unknown'' # [''1900-05'']) =
   epoch_tokens sample_stoi sample_date 0 [Model_default (DateTime 0), Model_default (DateTime 0)]
     ([''g/h'', ''n'', ''m'', ''1900.0''] @ [''1900-05'']) \<and>
   ModelSet_read sample_stod sample_stoi sample_date (DateTime 0) sample_stream \<noteq> Throws EmptyTable"
proof -
  have a: "sample_stod ''n/a'' = None \<and> 3 \<le> 0 + length [''g'', ''1'', ''0'', ''-31543'']"
    by (simp add: sample_stod_def sample_stoi_def is_digit_def)
  have b: "sample_stoi (epoch_year_text ''unknown'') = None"
    by (simp add: sample_stoi_def epoch_year_text_def is_digit_def)
  note t1 = non_numeric_token_is_skipped [of sample_stod "''n/a''" 0 "[''g'', ''1'', ''0'', ''-31543'']" 0 0
      "[Model_default (DateTime 0), Model_default (DateTime 0)]" "[''15'']"
      sample_stoi sample_date 0 "DateTime 0" sample_stream EmptyTable]
  note t2 = non_numeric_token_is_skipped [of sample_stod "''unknown''" 0 "[''g/h'', ''n'', ''m'', ''1900.0'']" 0 0
      "[Model_default (DateTime 0), Model_default (DateTime 0)]" "[''1900-05'']"
      sample_stoi sample_date 0 "DateTime 0" sample_stream EmptyTable]
  from a b t1 t2 show ?thesis by blast
qed

end
